theory Spec2Isabelle
  imports Complex_Main
begin

section \<open>Ubuntu Planner: session lifecycle and notification worker\<close>

text \<open>
  A shallow embedding of the parts of Ubuntu Planner that decide when a work session may
  start and stop and when a notification is sent. The code is the Python and JavaScript
  of the repository:
  \<^item> \<^verbatim>\<open>SessionService\<close> and its API routes
    (\<^verbatim>\<open>Documents/roadmap/3/sessions-backend.md\<close>);
  \<^item> \<^verbatim>\<open>NotificationService\<close> and \<^verbatim>\<open>NotificationWorker.start\<close>,
    \<^verbatim>\<open>check_notifications\<close> (\<^verbatim>\<open>Documents/roadmap/0/notification-integration.md\<close>);
  \<^item> the worker's two checks in the versions that replace the first ones:
    \<^verbatim>\<open>_check_planning_notifications\<close> with the cache of sent notifications
    (\<^verbatim>\<open>Documents/roadmap/2/notifications.md\<close>) and \<^verbatim>\<open>_check_session_notifications\<close>
    (the document \<^emph>\<open>Session Notifications\<close> of phase 3);
  \<^item> the getters of the front end's session store (\<^verbatim>\<open>stores/sessions.js\<close>);
  \<^item> the tables (\<^verbatim>\<open>Documents/readme-database.md\<close>).

  Modelling decisions.
  \<^item> A \<^verbatim>\<open>datetime\<close> is a number of seconds on the naive local clock, a \<open>real\<close>;
    \<^verbatim>\<open>(a - b).total_seconds()\<close> is \<open>a - b\<close>. Python's floats are read as exact reals.
  \<^item> Every call of \<^verbatim>\<open>datetime.now()\<close> is a parameter \<open>now\<close> of the function that makes
    it; a function that reads the clock several times during one call gets one instant.
  \<^item> The database is a record of its tables, each a list of rows in table order; a query's
    \<^verbatim>\<open>.first()\<close> is \<open>find\<close>, \<^verbatim>\<open>.all()\<close> is \<open>filter\<close>. A service method returns the new
    database; an exception is raised before any \<^verbatim>\<open>commit\<close>, so it leaves the database as
    it was. The schema's own constraints (column ranges, the \<^verbatim>\<open>CHECK\<close> on the score,
    foreign keys, the rounding of \<^verbatim>\<open>DATETIME\<close>) and its bookkeeping columns
    \<^verbatim>\<open>created_at\<close> and \<^verbatim>\<open>updated_at\<close> are outside the model.
  \<^item> An exception is a value of type \<open>error\<close>. A function of the worker returns the
    worker's state together with the exception it raised, if any: the cache and the calls
    made before the exception stay.
  \<^item> A name that Isabelle does not allow is changed: the leading underscore of the worker's
    methods is dropped, the column \<^verbatim>\<open>notes\<close> is \<open>session_notes\<close>, and the columns
    \<^verbatim>\<open>id\<close>, \<^verbatim>\<open>project_id\<close>, \<^verbatim>\<open>name\<close>, \<^verbatim>\<open>priority\<close> of the other tables carry
    the table's name.
\<close>

subsection \<open>Time and text helpers\<close>

type_synonym datetime = real

text \<open>Python's \<^verbatim>\<open>int(x)\<close> on a float: truncation towards zero.\<close>

definition py_int :: "real \<Rightarrow> int" where
  "py_int x = (if 0 \<le> x then \<lfloor>x\<rfloor> else \<lceil>x\<rceil>)"

text \<open>Python's \<^verbatim>\<open>str\<close> of an integer, as an f-string prints it.\<close>

fun str_nat :: "nat \<Rightarrow> string" where
  "str_nat n =
     (if n < 10 then [char_of (48 + n)]
      else str_nat (n div 10) @ [char_of (48 + n mod 10)])"

declare str_nat.simps [simp del]

definition str_int :: "int \<Rightarrow> string" where
  "str_int i = (if i < 0 then CHR ''-'' # str_nat (nat (- i)) else str_nat (nat i))"

text \<open>The number that a string of decimal digits stands for: the inverse of
  \<open>str_nat\<close>, used to show that different ids print differently.\<close>

definition digits_value :: "string \<Rightarrow> nat" where
  "digits_value s = foldl (\<lambda>acc c. 10 * acc + (of_char c - 48)) 0 s"

text \<open>\<^verbatim>\<open>strftime("%H:%M")\<close>: hour and minute of the day, each in two digits.\<close>

definition two_digits :: "int \<Rightarrow> string" where
  "two_digits n = (if n < 10 then CHR ''0'' # str_int n else str_int n)"

definition strftime_HM :: "datetime \<Rightarrow> string" where
  "strftime_HM t =
     two_digits ((\<lfloor>t\<rfloor> div 3600) mod 24) @ '':'' @ two_digits ((\<lfloor>t\<rfloor> div 60) mod 60)"

subsection \<open>Tables\<close>

text \<open>Table \<^verbatim>\<open>sessions\<close> (\<^verbatim>\<open>Documents/readme-database.md\<close>); \<open>tags\<close> is the
  relationship through \<^verbatim>\<open>session_tags\<close>, as the ids of the tags.\<close>

record session =
  session_id :: int
  project_id :: "int option"
  start_time :: datetime
  end_time :: "datetime option"
  planned_duration :: int
  planning_id :: "int option"
  session_notes :: "string option"
  satisfaction_score :: "int option"
  tasks_done :: "string option"
  notification_disabled :: bool
  tags :: "int list"

text \<open>The generated column \<^verbatim>\<open>actual_duration\<close>:
  \<^verbatim>\<open>CASE WHEN end_time IS NULL THEN NULL ELSE TIMESTAMPDIFF(MINUTE, start_time, end_time) END\<close>.
  \<^verbatim>\<open>TIMESTAMPDIFF(MINUTE, a, b)\<close> is the number of whole minutes from \<open>a\<close> to \<open>b\<close>,
  truncated towards zero.\<close>

definition timestampdiff_minute :: "datetime \<Rightarrow> datetime \<Rightarrow> int" where
  "timestampdiff_minute a b = py_int ((b - a) / 60)"

definition actual_duration :: "session \<Rightarrow> int option" where
  "actual_duration s =
     (case end_time s of None \<Rightarrow> None
      | Some e \<Rightarrow> Some (timestampdiff_minute (start_time s) e))"

record project =
  project_pk :: int
  project_name :: string
  notification_interval :: "int option"

datatype priority = Low | Medium | Critical

record planning =
  plan_id :: int
  plan_project_id :: int
  scheduled_start :: datetime
  scheduled_end :: datetime
  plan_priority :: priority
  description :: "string option"

text \<open>The database: its tables, and the \<^verbatim>\<open>AUTO_INCREMENT\<close> counter of \<^verbatim>\<open>sessions\<close>.
  A row of \<^verbatim>\<open>settings\<close> is its \<^verbatim>\<open>key_name\<close> and the integer \<^verbatim>\<open>int(value_json)\<close>;
  a row of \<^verbatim>\<open>tags\<close> is its id.\<close>

record database =
  sessions :: "session list"
  planning_table :: "planning list"
  projects :: "project list"
  tag_table :: "int list"
  settings :: "(string \<times> int) list"
  next_session_id :: int

datatype error = ValueError string | AttributeError string | ZeroDivisionError string

subsection \<open>SessionService\<close>

definition get_active_session :: "database \<Rightarrow> session option" where
  "get_active_session db = find (\<lambda>s. end_time s = None) (sessions db)"

definition get_by_id :: "database \<Rightarrow> int \<Rightarrow> session option" where
  "get_by_id db sid = find (\<lambda>s. session_id s = sid) (sessions db)"

text \<open>\<^verbatim>\<open>db.query(Tag).filter(Tag.id.in_(tag_ids)).all()\<close>\<close>

definition query_tags :: "database \<Rightarrow> int list \<Rightarrow> int list" where
  "query_tags db tag_ids = filter (\<lambda>t. t \<in> set tag_ids) (tag_table db)"

text \<open>\<^verbatim>\<open>commit\<close> of a row that a method changed in place: the row \<^verbatim>\<open>get_by_id\<close> returned,
  which is the first one with that id, is replaced.\<close>

fun update_row :: "session \<Rightarrow> session list \<Rightarrow> session list" where
  "update_row s' [] = []"
| "update_row s' (x # xs) =
     (if session_id x = session_id s' then s' # xs else x # update_row s' xs)"

definition commit :: "database \<Rightarrow> session \<Rightarrow> database" where
  "commit db s' = db\<lparr>sessions := update_row s' (sessions db)\<rparr>"

text \<open>The dictionary \<^verbatim>\<open>session_data\<close> that \<^verbatim>\<open>start_session\<close> receives: the fields of
  \<^verbatim>\<open>SessionStart\<close>, and \<^verbatim>\<open>start_time\<close> when the caller gave one.\<close>

record session_data =
  sd_project_id :: "int option"
  sd_planned_duration :: int
  sd_planning_id :: "int option"
  sd_tag_ids :: "int list"
  sd_start_time :: "datetime option"

definition start_session ::
  "database \<Rightarrow> datetime \<Rightarrow> session_data \<Rightarrow> error + (database \<times> session)" where
  "start_session db now data =
     (case get_active_session db of
        Some active \<Rightarrow> Inl (ValueError ''Another session is already active'')
      | None \<Rightarrow>
          (let start = (case sd_start_time data of None \<Rightarrow> now | Some t \<Rightarrow> t);
               tag_ids = sd_tag_ids data;
               new = \<lparr>session_id = next_session_id db,
                      project_id = sd_project_id data,
                      start_time = start,
                      end_time = None,
                      planned_duration = sd_planned_duration data,
                      planning_id = sd_planning_id data,
                      session_notes = None,
                      satisfaction_score = None,
                      tasks_done = None,
                      notification_disabled = False,
                      tags = (if tag_ids \<noteq> [] then query_tags db tag_ids else [])\<rparr>
           in Inr (db\<lparr>sessions := sessions db @ [new],
                       next_session_id := next_session_id db + 1\<rparr>, new)))"

text \<open>\<^verbatim>\<open>review_data\<close>: the items of \<^verbatim>\<open>SessionReview.dict(exclude_unset=True)\<close>, a key that
  was set with its value (which may be \<^verbatim>\<open>None\<close>).\<close>

datatype review_item =
    Satisfaction_score "int option"
  | Tasks_done "string option"
  | Notes "string option"
  | Tag_ids "int list"

fun set_review_item :: "database \<Rightarrow> review_item \<Rightarrow> session \<Rightarrow> session" where
  "set_review_item db (Tag_ids v) s = s\<lparr>tags := query_tags db v\<rparr>"
| "set_review_item db (Satisfaction_score v) s = s\<lparr>satisfaction_score := v\<rparr>"
| "set_review_item db (Tasks_done v) s = s\<lparr>tasks_done := v\<rparr>"
| "set_review_item db (Notes v) s = s\<lparr>session_notes := v\<rparr>"

fun apply_review_data :: "database \<Rightarrow> review_item list \<Rightarrow> session \<Rightarrow> session" where
  "apply_review_data db [] s = s"
| "apply_review_data db (item # items) s = apply_review_data db items (set_review_item db item s)"

definition stop_session ::
  "database \<Rightarrow> datetime \<Rightarrow> int \<Rightarrow> review_item list option \<Rightarrow> error + (database \<times> session)" where
  "stop_session db now sid review_data =
     (case get_by_id db sid of
        None \<Rightarrow> Inl (ValueError ''Session not found'')
      | Some s \<Rightarrow>
          if end_time s \<noteq> None then Inl (ValueError ''Session already stopped'')
          else
            (let s1 = s\<lparr>end_time := Some now\<rparr>;
                 s2 = (case review_data of
                         None \<Rightarrow> s1
                       | Some items \<Rightarrow> apply_review_data db items s1)
             in Inr (commit db s2, s2)))"

definition add_note :: "database \<Rightarrow> datetime \<Rightarrow> int \<Rightarrow> string \<Rightarrow> error + (database \<times> session)" where
  "add_note db now sid note =
     (case get_by_id db sid of
        None \<Rightarrow> Inl (ValueError ''Session not found'')
      | Some s \<Rightarrow>
          (let timestamp = strftime_HM now;
               new_note = ''['' @ timestamp @ ''] '' @ note;
               s' = (case session_notes s of
                       None \<Rightarrow> s\<lparr>session_notes := Some new_note\<rparr>
                     | Some old \<Rightarrow>
                         if old \<noteq> [] then s\<lparr>session_notes := Some (old @ [CHR 0x0A] @ new_note)\<rparr>
                         else s\<lparr>session_notes := Some new_note\<rparr>)
           in Inr (commit db s', s')))"

definition add_time :: "database \<Rightarrow> int \<Rightarrow> int \<Rightarrow> error + (database \<times> session)" where
  "add_time db sid minutes =
     (case get_by_id db sid of
        None \<Rightarrow> Inl (ValueError ''Session not found'')
      | Some s \<Rightarrow>
          (let s' = s\<lparr>planned_duration := planned_duration s + minutes\<rparr>
           in Inr (commit db s', s')))"

definition toggle_notifications :: "database \<Rightarrow> int \<Rightarrow> error + (database \<times> session)" where
  "toggle_notifications db sid =
     (case get_by_id db sid of
        None \<Rightarrow> Inl (ValueError ''Session not found'')
      | Some s \<Rightarrow>
          (let s' = s\<lparr>notification_disabled := \<not> notification_disabled s\<rparr>
           in Inr (commit db s', s')))"

subsection \<open>The API routes\<close>

text \<open>The five mutating routes of \<^verbatim>\<open>backend/app/api/sessions.py\<close>. Each calls the service
  method and turns a \<^verbatim>\<open>ValueError\<close> into a response of status 400; the database is then
  the one before the request.\<close>

datatype request =
    Post_start session_data
  | Post_stop int "review_item list option"
  | Post_add_note int string
  | Post_add_time int int
  | Post_toggle_notifications int

fun call_service :: "database \<Rightarrow> datetime \<Rightarrow> request \<Rightarrow> error + (database \<times> session)" where
  "call_service db now (Post_start data) = start_session db now data"
| "call_service db now (Post_stop sid review) = stop_session db now sid review"
| "call_service db now (Post_add_note sid note) = add_note db now sid note"
| "call_service db now (Post_add_time sid minutes) = add_time db sid minutes"
| "call_service db now (Post_toggle_notifications sid) = toggle_notifications db sid"

definition handle_request :: "database \<Rightarrow> datetime \<times> request \<Rightarrow> database" where
  "handle_request db r =
     (case call_service db (fst r) (snd r) of Inl e \<Rightarrow> db | Inr (db', s) \<Rightarrow> db')"

text \<open>Every state of the database that a sequence of requests goes through, the first
  one included.\<close>

fun observed :: "database \<Rightarrow> (datetime \<times> request) list \<Rightarrow> database list" where
  "observed db [] = [db]"
| "observed db (r # rs) = db # observed (handle_request db r) rs"

definition active_sessions :: "database \<Rightarrow> session list" where
  "active_sessions db = filter (\<lambda>s. end_time s = None) (sessions db)"

subsection \<open>NotificationService\<close>

text \<open>What \<^verbatim>\<open>send_notification\<close> is called with. (\<^verbatim>\<open>icon\<close> and \<^verbatim>\<open>timeout\<close> are never
  passed by the worker and keep their defaults.)\<close>

record notification =
  title :: string
  message :: string
  urgency :: string

text \<open>What happens to one call of \<^verbatim>\<open>send_notification\<close>, which is decided outside the
  program: the path of the configuration file reaches the service; or connecting to the
  service raises, which \<^verbatim>\<open>_send_to_service\<close> catches; or writing the file raises, which
  \<^verbatim>\<open>send_notification\<close> itself catches. The string is the text of the exception.\<close>

datatype delivery = Delivered | Connect_failed string | Write_failed string

text \<open>The port's behaviour during a run: the outcome of the call made after \<open>k\<close> earlier
  calls.\<close>

type_synonym port = "nat \<Rightarrow> delivery"

text \<open>The state of the worker process: the class attribute \<^verbatim>\<open>_notification_cache\<close>, the
  calls of \<^verbatim>\<open>send_notification\<close> made so far (oldest first), and what was printed.\<close>

record worker =
  notification_cache :: "string \<rightharpoonup> datetime"
  port_calls :: "notification list"
  stdout :: "string list"

definition py_print :: "string \<Rightarrow> worker \<Rightarrow> worker" where
  "py_print line w = w\<lparr>stdout := stdout w @ [line]\<rparr>"

definition send_notification :: "port \<Rightarrow> notification \<Rightarrow> worker \<Rightarrow> worker \<times> bool" where
  "send_notification env n w =
     (let w' = w\<lparr>port_calls := port_calls w @ [n]\<rparr> in
      case env (length (port_calls w)) of
        Delivered \<Rightarrow> (w', True)
      | Connect_failed e \<Rightarrow>
          (py_print (''Failed to connect to notification service: '' @ e) w', False)
      | Write_failed e \<Rightarrow>
          (py_print (''Failed to send notification: '' @ e) w', False))"

subsection \<open>NotificationWorker: the cache of sent notifications\<close>

definition cache_key :: "int \<Rightarrow> string \<Rightarrow> string" where
  "cache_key item_id item_type = item_type @ ''_'' @ str_int item_id"

definition was_notification_sent_recently :: "worker \<Rightarrow> datetime \<Rightarrow> int \<Rightarrow> string \<Rightarrow> bool" where
  "was_notification_sent_recently w now item_id item_type =
     (case notification_cache w (cache_key item_id item_type) of
        None \<Rightarrow> False
      | Some last_sent \<Rightarrow> now - last_sent < 60)"

definition mark_notification_sent :: "worker \<Rightarrow> datetime \<Rightarrow> int \<Rightarrow> string \<Rightarrow> worker" where
  "mark_notification_sent w now item_id item_type =
     w\<lparr>notification_cache := (notification_cache w)(cache_key item_id item_type \<mapsto> now)\<rparr>"

text \<open>The guard both checks end with (\<^verbatim>\<open>notifications.md\<close> lines 72 to 76, the session
  check lines 56 to 60): unless a notification for the item was sent recently, send and
  mark. \<open>send\<close> is the worker's \<^verbatim>\<open>_send_..._notification\<close>; when it raises, the mark is
  not reached.\<close>

definition send_unless_recent ::
  "datetime \<Rightarrow> int \<Rightarrow> string \<Rightarrow> (worker \<Rightarrow> worker \<times> error option) \<Rightarrow> worker
   \<Rightarrow> worker \<times> error option" where
  "send_unless_recent now item_id item_type send w =
     (if \<not> was_notification_sent_recently w now item_id item_type then
        (case send w of
           (w', Some e) \<Rightarrow> (w', Some e)
         | (w', None) \<Rightarrow> (mark_notification_sent w' now item_id item_type, None))
      else (w, None))"

text \<open>One dispatch attempt for an item: the guard around a sender that calls
  \<^verbatim>\<open>send_notification\<close> with the notification \<open>n\<close> and does not raise, as
  \<^verbatim>\<open>_send_session_notification\<close> does, and \<^verbatim>\<open>_send_planning_notification\<close> for a
  plan whose project exists. And a sequence of attempts, each with its instant, item id,
  item type and notification.\<close>

definition dispatch_attempt ::
  "port \<Rightarrow> datetime \<Rightarrow> int \<Rightarrow> string \<Rightarrow> notification \<Rightarrow> worker \<Rightarrow> worker" where
  "dispatch_attempt env now item_id item_type n w =
     fst (send_unless_recent now item_id item_type
            (\<lambda>w. (fst (send_notification env n w), None)) w)"

fun dispatch_attempts ::
  "port \<Rightarrow> (datetime \<times> int \<times> string \<times> notification) list \<Rightarrow> worker \<Rightarrow> worker" where
  "dispatch_attempts env [] w = w"
| "dispatch_attempts env ((now, item_id, item_type, n) # rest) w =
     dispatch_attempts env rest (dispatch_attempt env now item_id item_type n w)"

subsection \<open>NotificationWorker: planning notifications\<close>

text \<open>\<^verbatim>\<open>plan.project\<close> and \<^verbatim>\<open>session.project\<close>: the row the foreign key points to.\<close>

definition plan_project :: "database \<Rightarrow> planning \<Rightarrow> project option" where
  "plan_project db plan = find (\<lambda>p. project_pk p = plan_project_id plan) (projects db)"

definition session_project :: "database \<Rightarrow> session \<Rightarrow> project option" where
  "session_project db s =
     (case project_id s of
        None \<Rightarrow> None
      | Some pid \<Rightarrow> find (\<lambda>p. project_pk p = pid) (projects db))"

text \<open>\<^verbatim>\<open>x.project and x.project.notification_interval\<close>, when it is true: the project's
  interval, set and not zero.\<close>

definition project_interval :: "project option \<Rightarrow> int option" where
  "project_interval pr =
     (case pr of
        None \<Rightarrow> None
      | Some p \<Rightarrow>
          (case notification_interval p of
             None \<Rightarrow> None
           | Some i \<Rightarrow> if i \<noteq> 0 then Some i else None))"

text \<open>The interval of the planning check (\<^verbatim>\<open>notifications.md\<close> lines 64 to 66).\<close>

definition planning_interval :: "database \<Rightarrow> planning \<Rightarrow> int" where
  "planning_interval db plan =
     (case project_interval (plan_project db plan) of
        Some i \<Rightarrow> i
      | None \<Rightarrow> 10)"

definition newline :: string where
  "newline = [CHR 0x0A]"

definition apostrophe :: string where
  "apostrophe = [CHR 0x27]"

text \<open>\<^verbatim>\<open>if plan.description: message += f"\n{plan.description}"\<close>\<close>

definition description_line :: "planning \<Rightarrow> string" where
  "description_line plan =
     (case description plan of
        None \<Rightarrow> []
      | Some d \<Rightarrow> if d \<noteq> [] then newline @ d else [])"

definition send_planning_notification ::
  "port \<Rightarrow> database \<Rightarrow> planning \<Rightarrow> real \<Rightarrow> worker \<Rightarrow> worker \<times> error option" where
  "send_planning_notification env db plan elapsed_minutes w =
     (let urgency = (if plan_priority plan = Critical then ''critical'' else ''normal'') in
      case plan_project db plan of
        None \<Rightarrow>
          (w, Some (AttributeError (apostrophe @ ''NoneType'' @ apostrophe
             @ '' object has no attribute '' @ apostrophe @ ''name'' @ apostrophe)))
      | Some pr \<Rightarrow>
          (let n =
             (if elapsed_minutes < 1 then
                \<lparr>title = ''Scheduled Work'',
                 message = ''Time to start: '' @ project_name pr @ description_line plan,
                 urgency = urgency\<rparr>
              else
                \<lparr>title = ''Planning Reminder'',
                 message = ''Reminder: '' @ project_name pr @ newline @ ''Scheduled ''
                   @ str_int (py_int elapsed_minutes) @ '' minutes ago''
                   @ description_line plan,
                 urgency = urgency\<rparr>)
           in (fst (send_notification env n w), None)))"

text \<open>The body of the loop over \<^verbatim>\<open>planning_list\<close>: one planning entry.\<close>

definition check_plan ::
  "port \<Rightarrow> database \<Rightarrow> datetime \<Rightarrow> planning \<Rightarrow> worker \<Rightarrow> worker \<times> error option" where
  "check_plan env db now plan w =
     (case find (\<lambda>s. planning_id s = Some (plan_id plan)) (sessions db) of
        Some session_from_plan \<Rightarrow> (w, None)
      | None \<Rightarrow>
          (case find (\<lambda>s. start_time s \<ge> scheduled_start plan \<and> end_time s = None)
                  (sessions db) of
             Some any_recent_session \<Rightarrow> (w, None)
           | None \<Rightarrow>
               (let elapsed_minutes = (now - scheduled_start plan) / 60;
                    should_notify =
                      (if elapsed_minutes < 1 then True
                       else py_int elapsed_minutes mod planning_interval db plan = 0)
                in if should_notify then
                     send_unless_recent now (plan_id plan) ''planning''
                       (send_planning_notification env db plan elapsed_minutes) w
                   else (w, None))))"

fun check_plans ::
  "port \<Rightarrow> database \<Rightarrow> datetime \<Rightarrow> planning list \<Rightarrow> worker \<Rightarrow> worker \<times> error option" where
  "check_plans env db now [] w = (w, None)"
| "check_plans env db now (plan # rest) w =
     (case check_plan env db now plan w of
        (w', Some e) \<Rightarrow> (w', Some e)
      | (w', None) \<Rightarrow> check_plans env db now rest w')"

definition planning_list :: "database \<Rightarrow> datetime \<Rightarrow> planning list" where
  "planning_list db now =
     (let window_start = now - 5 * 60 in
      filter (\<lambda>p. scheduled_start p \<ge> window_start \<and> scheduled_start p \<le> now)
        (planning_table db))"

definition check_planning_notifications ::
  "port \<Rightarrow> database \<Rightarrow> datetime \<Rightarrow> worker \<Rightarrow> worker \<times> error option" where
  "check_planning_notifications env db now w = check_plans env db now (planning_list db now) w"

subsection \<open>NotificationWorker: session notifications\<close>

text \<open>The interval of the session check (lines 33 to 43): the project's, else the
  setting \<^verbatim>\<open>notification_interval_default\<close>, else 10.\<close>

definition session_interval :: "database \<Rightarrow> session \<Rightarrow> int" where
  "session_interval db s =
     (case project_interval (session_project db s) of
        Some i \<Rightarrow> i
      | None \<Rightarrow>
          (case find (\<lambda>r. fst r = ''notification_interval_default'') (settings db) of
             Some r \<Rightarrow> snd r
           | None \<Rightarrow> 10))"

definition send_session_notification ::
  "port \<Rightarrow> database \<Rightarrow> session \<Rightarrow> real \<Rightarrow> worker \<Rightarrow> worker \<times> error option" where
  "send_session_notification env db s overtime w =
     (let name = (case session_project db s of Some pr \<Rightarrow> project_name pr | None \<Rightarrow> ''Session'');
          n =
            (if overtime < 1 then
               \<lparr>title = ''Session Complete: '' @ name,
                message = ''Time is up! You'' @ apostrophe @ ''ve worked for ''
                  @ str_int (planned_duration s) @ '' minutes.'' @ newline
                  @ ''Consider taking a break or starting something else.'',
                urgency = ''normal''\<rparr>
             else
               \<lparr>title = ''Still Working: '' @ name,
                message = ''You'' @ apostrophe @ ''re '' @ str_int (py_int overtime)
                  @ '' minutes over planned time.'' @ newline
                  @ ''Planned: '' @ str_int (planned_duration s) @ '' min, ''
                  @ ''Elapsed: '' @ str_int (py_int (overtime + real_of_int (planned_duration s)))
                  @ '' min'',
                urgency = ''normal''\<rparr>)
      in (fst (send_notification env n w), None))"

definition check_session_notifications ::
  "port \<Rightarrow> database \<Rightarrow> datetime \<Rightarrow> worker \<Rightarrow> worker \<times> error option" where
  "check_session_notifications env db now w =
     (case find (\<lambda>s. end_time s = None) (sessions db) of
        None \<Rightarrow> (w, None)
      | Some active_session \<Rightarrow>
          if notification_disabled active_session then (w, None)
          else
            (let elapsed_minutes = (now - start_time active_session) / 60 in
             if elapsed_minutes < real_of_int (planned_duration active_session) then (w, None)
             else
               (let overtime_minutes =
                      elapsed_minutes - real_of_int (planned_duration active_session);
                    interval = session_interval db active_session;
                    notify = send_unless_recent now (session_id active_session) ''session''
                      (send_session_notification env db active_session overtime_minutes)
                in if overtime_minutes < 1 then notify w
                   else if interval = 0 then
                     (w, Some (ZeroDivisionError ''integer modulo by zero''))
                   else if py_int overtime_minutes mod interval = 0 then notify w
                   else (w, None))))"

subsection \<open>NotificationWorker: the tick and the polling loop\<close>

definition check_notifications ::
  "port \<Rightarrow> database \<Rightarrow> datetime \<Rightarrow> worker \<Rightarrow> worker \<times> error option" where
  "check_notifications env db now w =
     (case check_planning_notifications env db now w of
        (w', Some e) \<Rightarrow> (w', Some e)
      | (w', None) \<Rightarrow> check_session_notifications env db now w')"

fun error_text :: "error \<Rightarrow> string" where
  "error_text (ValueError m) = m"
| "error_text (AttributeError m) = m"
| "error_text (ZeroDivisionError m) = m"

text \<open>One round of the \<^verbatim>\<open>while\<close> loop of \<^verbatim>\<open>start\<close>: the \<^verbatim>\<open>try\<close> around
  \<^verbatim>\<open>check_notifications\<close>, at the instant the round runs and on the database as it is
  then.\<close>

definition tick :: "port \<Rightarrow> datetime \<times> database \<Rightarrow> worker \<Rightarrow> worker" where
  "tick env t w =
     (case check_notifications env (snd t) (fst t) w of
        (w', None) \<Rightarrow> w'
      | (w', Some e) \<Rightarrow> py_print (''Error in notification worker: '' @ error_text e) w')"

text \<open>\<^verbatim>\<open>start\<close>, for the rounds that run while \<^verbatim>\<open>self.running\<close> is true: one element per
  round.\<close>

fun polling_loop :: "port \<Rightarrow> (datetime \<times> database) list \<Rightarrow> worker \<Rightarrow> worker" where
  "polling_loop env [] w = w"
| "polling_loop env (t # ts) w = polling_loop env ts (tick env t w)"

definition start :: "port \<Rightarrow> (datetime \<times> database) list \<Rightarrow> worker \<Rightarrow> worker" where
  "start env rounds w = polling_loop env rounds (py_print ''Notification worker started'' w)"

subsection \<open>The front end's session store\<close>

text \<open>The getters of \<^verbatim>\<open>useSessionStore\<close>. \<open>js_start_time\<close> is
  \<^verbatim>\<open>new Date(state.activeSession.start_time)\<close> and \<open>now\<close> is \<^verbatim>\<open>new Date()\<close>, both in
  milliseconds.\<close>

record active_session_json =
  js_start_time :: int
  js_planned_duration :: int

record store_state =
  activeSession :: "active_session_json option"

definition elapsedMinutes :: "int \<Rightarrow> store_state \<Rightarrow> int" where
  "elapsedMinutes now state =
     (case activeSession state of
        None \<Rightarrow> 0
      | Some a \<Rightarrow> \<lfloor>real_of_int (now - js_start_time a) / 1000 / 60\<rfloor>)"

definition remainingMinutes :: "int \<Rightarrow> store_state \<Rightarrow> int" where
  "remainingMinutes now state =
     (case activeSession state of
        None \<Rightarrow> 0
      | Some a \<Rightarrow> max 0 (js_planned_duration a - elapsedMinutes now state))"

definition isOvertime :: "int \<Rightarrow> store_state \<Rightarrow> bool" where
  "isOvertime now state =
     (case activeSession state of
        None \<Rightarrow> False
      | Some a \<Rightarrow> elapsedMinutes now state > js_planned_duration a)"

definition overtimeMinutes :: "int \<Rightarrow> store_state \<Rightarrow> int" where
  "overtimeMinutes now state =
     (case activeSession state of
        None \<Rightarrow> 0
      | Some a \<Rightarrow> max 0 (elapsedMinutes now state - js_planned_duration a))"

subsection \<open>Comparing two runs of the worker\<close>

text \<open>Two worker states agree on what was dispatched: the same calls of
  \<^verbatim>\<open>send_notification\<close> in the same order, and the same cache. (What was printed may
  differ.) Two results of a check agree when the states do and the same exception, or
  none, was raised.\<close>

definition same_dispatch :: "worker \<Rightarrow> worker \<Rightarrow> bool" where
  "same_dispatch w w' \<longleftrightarrow>
     port_calls w = port_calls w' \<and> notification_cache w = notification_cache w'"

definition same_outcome :: "worker \<times> error option \<Rightarrow> worker \<times> error option \<Rightarrow> bool" where
  "same_outcome r r' \<longleftrightarrow> same_dispatch (fst r) (fst r') \<and> snd r = snd r'"

section \<open>Concrete scenarios\<close>

text \<open>Databases, requests and worker states that the closed theorems below evaluate the
  model on. Instants are seconds after midnight: 32400 is 09:00.\<close>

definition empty_db :: database where
  "empty_db = \<lparr>sessions = [], planning_table = [], projects = [], tag_table = [],
     settings = [], next_session_id = 1\<rparr>"

definition half_hour :: session_data where
  "half_hour = \<lparr>sd_project_id = None, sd_planned_duration = 30, sd_planning_id = None,
     sd_tag_ids = [], sd_start_time = None\<rparr>"

definition morning_requests :: "(datetime \<times> request) list" where
  "morning_requests = [(32400, Post_start half_hour), (32700, Post_start half_hour),
     (33000, Post_add_time 1 15), (33600, Post_stop 1 None), (34000, Post_start half_hour)]"

definition running_db :: database where
  "running_db = handle_request empty_db (32400, Post_start half_hour)"

definition stopped_db :: database where
  "stopped_db = handle_request running_db (33600, Post_stop 1 None)"

definition first_session :: session where
  "first_session = \<lparr>session_id = 1, project_id = None, start_time = 32400,
     end_time = None, planned_duration = 30, planning_id = None, session_notes = None,
     satisfaction_score = None, tasks_done = None, notification_disabled = False, tags = []\<rparr>"

definition reliable_port :: port where
  "reliable_port = (\<lambda>k. Delivered)"

definition dead_port :: port where
  "dead_port = (\<lambda>k. Connect_failed ''[Errno 111] Connection refused'')"

definition new_worker :: worker where
  "new_worker = \<lparr>notification_cache = Map.empty, port_calls = [], stdout = []\<rparr>"

text \<open>The front end's store with a session of sixty minutes started at 10:00.\<close>

definition store_at_ten :: store_state where
  "store_at_ten = \<lparr>activeSession = Some \<lparr>js_start_time = 36000000, js_planned_duration = 60\<rparr>\<rparr>"

text \<open>A critical plan for 14:00 to 15:00 on a project without an interval of its own,
  the setting \<^verbatim>\<open>notification_interval_default\<close> at 3, and an errand of ten seconds that
  was started at 14:00:10 without a plan and has ended.\<close>

definition thesis_project :: project where
  "thesis_project = \<lparr>project_pk = 1, project_name = ''Thesis'', notification_interval = None\<rparr>"

definition afternoon_plan :: planning where
  "afternoon_plan = \<lparr>plan_id = 1, plan_project_id = 1, scheduled_start = 50400,
     scheduled_end = 54000, plan_priority = Critical, description = None\<rparr>"

definition errand :: session where
  "errand = \<lparr>session_id = 1, project_id = None, start_time = 50410,
     end_time = Some 50420, planned_duration = 30, planning_id = None, session_notes = None,
     satisfaction_score = None, tasks_done = None, notification_disabled = False, tags = []\<rparr>"

definition quiet_db :: database where
  "quiet_db = \<lparr>sessions = [], planning_table = [afternoon_plan],
     projects = [thesis_project], tag_table = [],
     settings = [(''notification_interval_default'', 3)], next_session_id = 1\<rparr>"

definition afternoon_db :: database where
  "afternoon_db = quiet_db\<lparr>sessions := [errand], next_session_id := 2\<rparr>"

definition errand_db :: database where
  "errand_db = quiet_db\<lparr>sessions := [errand\<lparr>end_time := None\<rparr>], next_session_id := 2\<rparr>"

text \<open>A session of thirty minutes started at 09:00 with its notifications disabled.\<close>

definition muted :: session where
  "muted = first_session\<lparr>notification_disabled := True\<rparr>"

definition muted_db :: database where
  "muted_db = empty_db\<lparr>sessions := [muted], next_session_id := 2\<rparr>"

text \<open>Two plans one after the other on a project that reminds every two minutes; and a
  database whose default interval is zero, with a session long in overtime.\<close>

definition short_plan :: planning where
  "short_plan = \<lparr>plan_id = 1, plan_project_id = 1, scheduled_start = 50400,
     scheduled_end = 50520, plan_priority = Medium, description = Some ''Outline''\<rparr>"

definition long_plan :: planning where
  "long_plan = \<lparr>plan_id = 2, plan_project_id = 1, scheduled_start = 50520,
     scheduled_end = 54000, plan_priority = Critical, description = None\<rparr>"

definition two_plans_db :: database where
  "two_plans_db = \<lparr>sessions = [], planning_table = [short_plan, long_plan],
     projects = [thesis_project\<lparr>notification_interval := Some 2\<rparr>], tag_table = [],
     settings = [], next_session_id = 1\<rparr>"

definition zero_interval_db :: database where
  "zero_interval_db = \<lparr>sessions = [first_session], planning_table = [],
     projects = [], tag_table = [],
     settings = [(''notification_interval_default'', 0)], next_session_id = 2\<rparr>"

text \<open>Notifications, and the rounds of an afternoon: the two plans, then the database
  with the zero interval, then the two plans again.\<close>

definition still_working :: notification where
  "still_working = \<lparr>title = ''Still Working: Session'',
     message = ''You'' @ apostrophe @ ''re 10 minutes over planned time.'' @ newline
       @ ''Planned: 30 min, Elapsed: 40 min'',
     urgency = ''normal''\<rparr>"

definition knock :: notification where
  "knock = \<lparr>title = ''Scheduled Work'', message = ''Time to start: Thesis'',
     urgency = ''critical''\<rparr>"

definition afternoon_rounds :: "(datetime \<times> database) list" where
  "afternoon_rounds = [(50530, two_plans_db), (50590, zero_interval_db), (50650, two_plans_db)]"

section \<open>The single active session\<close>

subsection \<open>Rows and commits\<close>

lemma filter_update_row_le:
  "(P s' \<Longrightarrow> \<exists>s. find (\<lambda>x. session_id x = session_id s') xs = Some s \<and> P s) \<Longrightarrow>
   length (filter P (update_row s' xs)) \<le> length (filter P xs)"
  by (induction xs) auto

lemma active_sessions_commit_le:
  assumes "get_by_id db (session_id s') = Some s" "end_time s' = None \<Longrightarrow> end_time s = None"
  shows "length (active_sessions (commit db s')) \<le> length (active_sessions db)"
  using assms unfolding active_sessions_def commit_def get_by_id_def
  by (auto intro!: filter_update_row_le)

lemma find_session_id: "find (\<lambda>x. session_id x = sid) xs = Some s \<Longrightarrow> session_id s = sid"
  by (induction xs) (auto split: if_splits)

lemma get_by_id_session_id: "get_by_id db sid = Some s \<Longrightarrow> session_id s = sid"
  unfolding get_by_id_def by (rule find_session_id)

lemma end_time_apply_review_data [simp]:
  "end_time (apply_review_data db items s) = end_time s"
proof (induction items arbitrary: s)
  case Nil
  show ?case by simp
next
  case (Cons item items)
  show ?case by (cases item) (simp_all add: Cons.IH)
qed

lemma session_id_apply_review_data [simp]:
  "session_id (apply_review_data db items s) = session_id s"
proof (induction items arbitrary: s)
  case Nil
  show ?case by simp
next
  case (Cons item items)
  show ?case by (cases item) (simp_all add: Cons.IH)
qed

subsection \<open>Each service method keeps the number of active sessions at most one\<close>

lemma start_session_active:
  assumes "start_session db now data = Inr (db', s)"
  shows "length (active_sessions db') \<le> 1"
proof -
  from assms have none: "get_active_session db = None"
    by (auto simp: start_session_def split: option.splits)
  then have "active_sessions db = []"
    by (simp add: get_active_session_def active_sessions_def find_None_iff filter_empty_conv)
  with assms none show ?thesis
    by (auto simp: start_session_def active_sessions_def Let_def)
qed

lemma stop_session_active:
  assumes "stop_session db now sid review = Inr (db', s)"
  shows "length (active_sessions db') \<le> length (active_sessions db)"
proof -
  from assms obtain s0 where s0: "get_by_id db sid = Some s0" "end_time s0 = None"
    and db': "db' = commit db s" and s: "end_time s \<noteq> None" "session_id s = session_id s0"
    by (auto simp: stop_session_def Let_def split: option.splits if_splits)
  from s0 have "session_id s0 = sid" by (simp add: get_by_id_session_id)
  with s0 s db' show ?thesis
    by (auto intro!: active_sessions_commit_le)
qed

lemma add_note_active:
  assumes "add_note db now sid note = Inr (db', s)"
  shows "length (active_sessions db') \<le> length (active_sessions db)"
proof -
  from assms obtain s0 where s0: "get_by_id db sid = Some s0"
    and db': "db' = commit db s" and s: "end_time s = end_time s0" "session_id s = session_id s0"
    by (auto simp: add_note_def Let_def split: option.splits if_splits)
  from s0 have "session_id s0 = sid" by (simp add: get_by_id_session_id)
  with s0 s db' show ?thesis
    by (auto intro!: active_sessions_commit_le)
qed

lemma add_time_active:
  assumes "add_time db sid minutes = Inr (db', s)"
  shows "length (active_sessions db') \<le> length (active_sessions db)"
proof -
  from assms obtain s0 where s0: "get_by_id db sid = Some s0"
    and db': "db' = commit db s" and s: "end_time s = end_time s0" "session_id s = session_id s0"
    by (auto simp: add_time_def Let_def split: option.splits if_splits)
  from s0 have "session_id s0 = sid" by (simp add: get_by_id_session_id)
  with s0 s db' show ?thesis
    by (auto intro!: active_sessions_commit_le)
qed

lemma toggle_notifications_active:
  assumes "toggle_notifications db sid = Inr (db', s)"
  shows "length (active_sessions db') \<le> length (active_sessions db)"
proof -
  from assms obtain s0 where s0: "get_by_id db sid = Some s0"
    and db': "db' = commit db s" and s: "end_time s = end_time s0" "session_id s = session_id s0"
    by (auto simp: toggle_notifications_def Let_def split: option.splits if_splits)
  from s0 have "session_id s0 = sid" by (simp add: get_by_id_session_id)
  with s0 s db' show ?thesis
    by (auto intro!: active_sessions_commit_le)
qed

lemma handle_request_active:
  assumes "length (active_sessions db) \<le> 1"
  shows "length (active_sessions (handle_request db r)) \<le> 1"
proof (cases "call_service db (fst r) (snd r)")
  case (Inl e)
  with assms show ?thesis by (simp add: handle_request_def)
next
  case (Inr p)
  obtain db' s where p: "p = (db', s)" by (cases p)
  have "length (active_sessions db') \<le> 1"
  proof (cases "snd r")
    case (Post_start data)
    with Inr p show ?thesis by (auto dest: start_session_active)
  next
    case (Post_stop sid review)
    with Inr p assms show ?thesis by (auto dest!: stop_session_active)
  next
    case (Post_add_note sid msg)
    with Inr p assms show ?thesis by (auto dest!: add_note_active)
  next
    case (Post_add_time sid minutes)
    with Inr p assms show ?thesis by (auto dest!: add_time_active)
  next
    case (Post_toggle_notifications sid)
    with Inr p assms show ?thesis by (auto dest!: toggle_notifications_active)
  qed
  with Inr p show ?thesis by (simp add: handle_request_def)
qed

lemma observed_active:
  "length (active_sessions db) \<le> 1 \<Longrightarrow>
   \<forall>d \<in> set (observed db rs). length (active_sessions d) \<le> 1"
proof (induction rs arbitrary: db)
  case Nil
  then show ?case by simp
next
  case (Cons r rs)
  from Cons.prems have "length (active_sessions (handle_request db r)) \<le> 1"
    by (rule handle_request_active)
  from Cons.IH [OF this] Cons.prems show ?case by simp
qed

text \<open>
  Claim C1. Take a database with no active session and any sequence of requests to the
  five mutating routes (start, stop, add note, add time, toggle notifications), each at
  any instant and with any arguments, failing or not. In every state the database goes
  through, at most one session has \<^verbatim>\<open>end_time\<close> \<open>None\<close>.
\<close>

theorem single_active_session:
  assumes "get_active_session db = None"
  shows "\<forall>d \<in> set (observed db rs). length (active_sessions d) \<le> 1"
proof -
  from assms have "active_sessions db = []"
    by (simp add: get_active_session_def active_sessions_def find_None_iff filter_empty_conv)
  then have "length (active_sessions db) \<le> 1" by simp
  then show ?thesis by (rule observed_active)
qed

text \<open>A morning: a start, a refused second start, fifteen minutes more, a quick stop and
  a new start. The numbers of active sessions observed are 0, 1, 1, 1, 0, 1.\<close>

theorem single_active_session_witness:
  "get_active_session empty_db = None \<and>
   list_all (\<lambda>d. length (active_sessions d) \<le> 1) (observed empty_db morning_requests) \<and>
   map (\<lambda>d. length (active_sessions d)) (observed empty_db morning_requests)
     = [0, 1, 1, 1, 0, 1]"
proof -
  have h: "get_active_session empty_db = None" by code_simp
  have "list_all (\<lambda>d. length (active_sessions d) \<le> 1) (observed empty_db morning_requests)"
    using single_active_session [OF h, of morning_requests] by (simp add: list_all_iff)
  moreover have "map (\<lambda>d. length (active_sessions d)) (observed empty_db morning_requests)
     = [0, 1, 1, 1, 0, 1]" by code_simp
  ultimately show ?thesis using h by simp
qed

subsection \<open>Starting while a session is active\<close>

text \<open>
  Claim C2. When the database holds an active session, \<^verbatim>\<open>start_session\<close> raises
  \<^verbatim>\<open>ValueError("Another session is already active")\<close>, which is the service's conflict
  error (the route answers 400); the database after the request is the database before
  it, and the active session is the same row as before.
\<close>

theorem start_session_conflict:
  assumes "get_active_session db = Some a"
  shows "start_session db now data = Inl (ValueError ''Another session is already active'')
    \<and> handle_request db (now, Post_start data) = db
    \<and> get_active_session (handle_request db (now, Post_start data)) = Some a"
  using assms by (simp add: start_session_def handle_request_def)

text \<open>Scenario B of the specification: a session started at 09:00, a second start at 09:05.\<close>

theorem start_session_conflict_witness:
  "get_active_session running_db = Some first_session \<and>
   start_session running_db 32700 half_hour
     = Inl (ValueError ''Another session is already active'') \<and>
   handle_request running_db (32700, Post_start half_hour) = running_db \<and>
   get_active_session (handle_request running_db (32700, Post_start half_hour))
     = Some first_session"
proof -
  have h: "get_active_session running_db = Some first_session" by code_simp
  from start_session_conflict [OF h, of 32700 half_hour] h show ?thesis by simp
qed

section \<open>Stopping and extending a session\<close>

lemma find_update_row:
  "find (\<lambda>x. session_id x = session_id s') xs = Some s \<Longrightarrow>
   find (\<lambda>x. session_id x = session_id s') (update_row s' xs) = Some s'"
  by (induction xs) (auto split: if_splits)

lemma get_by_id_commit:
  assumes "get_by_id db sid = Some s" "session_id s' = sid"
  shows "get_by_id (commit db s') sid = Some s'"
  using assms find_update_row [of s' "sessions db" s]
  by (simp add: get_by_id_def commit_def)

text \<open>
  Claim C4. For a session that exists and is active, \<^verbatim>\<open>stop_session\<close> without review
  data succeeds; the row it stores and returns is the old row with \<^verbatim>\<open>end_time\<close> set to
  the instant of the call, so the score, the tasks done, the notes and the tags are the
  ones from before; and \<^verbatim>\<open>actual_duration\<close> of that row is the whole number of minutes
  from \<^verbatim>\<open>start_time\<close> to that instant, a function of the row alone.
\<close>

theorem quick_stop_frame:
  assumes "get_by_id db sid = Some s" and "end_time s = None"
  shows "stop_session db now sid None
       = Inr (commit db (s\<lparr>end_time := Some now\<rparr>), s\<lparr>end_time := Some now\<rparr>)
    \<and> get_by_id (commit db (s\<lparr>end_time := Some now\<rparr>)) sid = Some (s\<lparr>end_time := Some now\<rparr>)
    \<and> end_time (s\<lparr>end_time := Some now\<rparr>) = Some now
    \<and> satisfaction_score (s\<lparr>end_time := Some now\<rparr>) = satisfaction_score s
    \<and> tasks_done (s\<lparr>end_time := Some now\<rparr>) = tasks_done s
    \<and> session_notes (s\<lparr>end_time := Some now\<rparr>) = session_notes s
    \<and> tags (s\<lparr>end_time := Some now\<rparr>) = tags s
    \<and> actual_duration (s\<lparr>end_time := Some now\<rparr>) = Some (py_int ((now - start_time s) / 60))"
proof -
  let ?s' = "s\<lparr>end_time := Some now\<rparr>"
  have stop: "stop_session db now sid None = Inr (commit db ?s', ?s')"
    using assms by (simp add: stop_session_def Let_def)
  have "session_id s = sid" using assms(1) by (rule get_by_id_session_id)
  then have stored: "get_by_id (commit db ?s') sid = Some ?s'"
    using assms(1) by (simp add: get_by_id_commit)
  have "actual_duration ?s' = Some (py_int ((now - start_time s) / 60))"
    by (simp add: actual_duration_def timestampdiff_minute_def)
  with stop stored show ?thesis by simp
qed

text \<open>The session of 09:00 stopped at 09:20: twenty minutes.\<close>

theorem quick_stop_frame_witness:
  "get_by_id running_db 1 = Some first_session \<and> end_time first_session = None \<and>
   stop_session running_db 33600 1 None
     = Inr (stopped_db, first_session\<lparr>end_time := Some 33600\<rparr>) \<and>
   get_by_id stopped_db 1 = Some (first_session\<lparr>end_time := Some 33600\<rparr>) \<and>
   actual_duration (first_session\<lparr>end_time := Some 33600\<rparr>) = Some 20"
proof -
  have h1: "get_by_id running_db 1 = Some first_session" by code_simp
  have h2: "end_time first_session = None" by code_simp
  have c: "commit running_db (first_session\<lparr>end_time := Some 33600\<rparr>) = stopped_db"
    by code_simp
  have d: "py_int ((33600 - start_time first_session) / 60) = 20"
    by (simp add: first_session_def py_int_def)
  from quick_stop_frame [OF h1 h2, of 33600] h1 h2 show ?thesis
    by (simp only: c d)
qed

text \<open>
  Claim C5 as stated fails: \<^verbatim>\<open>add_time\<close> checks only that the session exists. On the
  stopped session it succeeds and extends the planned duration to 45; on the running
  session with \<open>- 5\<close> minutes it succeeds and shortens the planned duration to 25.
\<close>

theorem add_time_unchecked_counterexample:
  "get_active_session stopped_db = None \<and>
   add_time stopped_db 1 15
     = Inr (commit stopped_db (first_session\<lparr>end_time := Some 33600, planned_duration := 45\<rparr>),
            first_session\<lparr>end_time := Some 33600, planned_duration := 45\<rparr>) \<and>
   add_time running_db 1 (- 5)
     = Inr (commit running_db (first_session\<lparr>planned_duration := 25\<rparr>),
            first_session\<lparr>planned_duration := 25\<rparr>)"
  by code_simp

text \<open>
  Claim C5, amended. \<^verbatim>\<open>add_time\<close> fails, with \<^verbatim>\<open>ValueError("Session not found")\<close>, when
  no session has the id. For a session that exists, active or stopped, and for any
  integer \<open>minutes\<close>, positive or not, it succeeds: the row it stores and returns is the old
  row with \<^verbatim>\<open>planned_duration\<close> increased by exactly \<open>minutes\<close>, every other field as
  before.
\<close>

theorem add_time_any_session:
  "(get_by_id db sid = None \<longrightarrow> add_time db sid minutes = Inl (ValueError ''Session not found''))
   \<and> (\<forall>s. get_by_id db sid = Some s \<longrightarrow>
         add_time db sid minutes
           = Inr (commit db (s\<lparr>planned_duration := planned_duration s + minutes\<rparr>),
                  s\<lparr>planned_duration := planned_duration s + minutes\<rparr>)
         \<and> get_by_id (commit db (s\<lparr>planned_duration := planned_duration s + minutes\<rparr>)) sid
           = Some (s\<lparr>planned_duration := planned_duration s + minutes\<rparr>))"
proof (intro conjI allI impI)
  assume "get_by_id db sid = None"
  then show "add_time db sid minutes = Inl (ValueError ''Session not found'')"
    by (simp add: add_time_def)
next
  fix s assume s: "get_by_id db sid = Some s"
  then show "add_time db sid minutes
           = Inr (commit db (s\<lparr>planned_duration := planned_duration s + minutes\<rparr>),
                  s\<lparr>planned_duration := planned_duration s + minutes\<rparr>)"
    by (simp add: add_time_def Let_def)
next
  fix s assume s: "get_by_id db sid = Some s"
  then have "session_id s = sid" by (rule get_by_id_session_id)
  then show "get_by_id (commit db (s\<lparr>planned_duration := planned_duration s + minutes\<rparr>)) sid
           = Some (s\<lparr>planned_duration := planned_duration s + minutes\<rparr>)"
    using s by (simp add: get_by_id_commit)
qed

text \<open>An id that no session has; and the stopped session, shortened by five minutes.\<close>

theorem add_time_any_session_witness:
  "get_by_id empty_db 7 = None \<and>
   add_time empty_db 7 15 = Inl (ValueError ''Session not found'') \<and>
   get_by_id stopped_db 1 = Some (first_session\<lparr>end_time := Some 33600\<rparr>) \<and>
   add_time stopped_db 1 (- 5)
     = Inr (commit stopped_db (first_session\<lparr>end_time := Some 33600, planned_duration := 25\<rparr>),
            first_session\<lparr>end_time := Some 33600, planned_duration := 25\<rparr>) \<and>
   get_by_id (commit stopped_db (first_session\<lparr>end_time := Some 33600, planned_duration := 25\<rparr>)) 1
     = Some (first_session\<lparr>end_time := Some 33600, planned_duration := 25\<rparr>)"
proof -
  have h0: "get_by_id empty_db 7 = None" by code_simp
  have h1: "get_by_id stopped_db 1 = Some (first_session\<lparr>end_time := Some 33600\<rparr>)"
    by code_simp
  have p: "planned_duration (first_session\<lparr>end_time := Some 33600\<rparr>) + (- 5) = 25"
    by (simp add: first_session_def)
  from add_time_any_session [of empty_db 7 15] h0
  have a: "add_time empty_db 7 15 = Inl (ValueError ''Session not found'')" by (simp only:)
  from add_time_any_session [of stopped_db 1 "- 5"] h1
  have "add_time stopped_db 1 (- 5)
     = Inr (commit stopped_db (first_session\<lparr>end_time := Some 33600, planned_duration := 25\<rparr>),
            first_session\<lparr>end_time := Some 33600, planned_duration := 25\<rparr>) \<and>
   get_by_id (commit stopped_db (first_session\<lparr>end_time := Some 33600, planned_duration := 25\<rparr>)) 1
     = Some (first_session\<lparr>end_time := Some 33600, planned_duration := 25\<rparr>)"
    using p by simp
  with h0 h1 a show ?thesis by (simp only: simp_thms)
qed

section \<open>The derived facts of the session store\<close>

lemma elapsedMinutes_div:
  "activeSession state = Some a \<Longrightarrow>
   elapsedMinutes now state = (now - js_start_time a) div 60000"
proof -
  assume a: "activeSession state = Some a"
  have "real_of_int (now - js_start_time a) / 1000 / 60
      = real_of_int (now - js_start_time a) / real_of_int 60000" by simp
  then have "\<lfloor>real_of_int (now - js_start_time a) / 1000 / 60\<rfloor>
      = (now - js_start_time a) div 60000"
    by (simp only: floor_divide_of_int_eq)
  with a show ?thesis by (simp add: elapsedMinutes_def)
qed

text \<open>
  Claim C3. For a store whose active session has a planned duration of 60 minutes and was
  started at \<open>T\<close> (in milliseconds): \<open>elapsedMinutes\<close> is the floor of the time since
  the start divided by sixty seconds; at \<open>T\<close> + 59 min \<open>isOvertime\<close> is false; at
  \<open>T\<close> + 60 min \<open>overtimeMinutes\<close> is 0; at \<open>T\<close> + 61 min \<open>isOvertime\<close> is true and
  \<open>overtimeMinutes\<close> is 1.
\<close>

theorem overtime_floor_minutes:
  assumes "activeSession state = Some a"
    and "js_planned_duration a = 60" and "js_start_time a = T"
  shows "elapsedMinutes now state = \<lfloor>real_of_int (now - T) / 60000\<rfloor>
    \<and> \<not> isOvertime (T + 59 * 60000) state
    \<and> overtimeMinutes (T + 60 * 60000) state = 0
    \<and> isOvertime (T + 61 * 60000) state
    \<and> overtimeMinutes (T + 61 * 60000) state = 1"
proof -
  have e: "elapsedMinutes t state = (t - T) div 60000" for t
    using assms by (simp add: elapsedMinutes_div)
  have "\<lfloor>real_of_int (now - T) / real_of_int 60000\<rfloor> = (now - T) div 60000"
    by (simp only: floor_divide_of_int_eq)
  then have "elapsedMinutes now state = \<lfloor>real_of_int (now - T) / 60000\<rfloor>"
    by (simp add: e)
  moreover have "\<not> isOvertime (T + 59 * 60000) state"
    using assms by (simp add: isOvertime_def e)
  moreover have "overtimeMinutes (T + 60 * 60000) state = 0"
    using assms by (simp add: overtimeMinutes_def e)
  moreover have "isOvertime (T + 61 * 60000) state"
    using assms by (simp add: isOvertime_def e)
  moreover have "overtimeMinutes (T + 61 * 60000) state = 1"
    using assms by (simp add: overtimeMinutes_def e)
  ultimately show ?thesis by simp
qed

text \<open>Scenario A of the specification, a session started at 10:00: one millisecond
  before 11:00 it has 59 minutes elapsed and 1 remaining; the boundary values at 10:59,
  11:00 and 11:01.\<close>

theorem overtime_floor_minutes_witness:
  "activeSession store_at_ten = Some \<lparr>js_start_time = 36000000, js_planned_duration = 60\<rparr>
   \<and> elapsedMinutes 39599999 store_at_ten = 59
   \<and> remainingMinutes 39599999 store_at_ten = 1
   \<and> \<not> isOvertime 39540000 store_at_ten
   \<and> overtimeMinutes 39600000 store_at_ten = 0
   \<and> isOvertime 39660000 store_at_ten
   \<and> overtimeMinutes 39660000 store_at_ten = 1"
proof -
  have h: "activeSession store_at_ten = Some \<lparr>js_start_time = 36000000, js_planned_duration = 60\<rparr>"
    by (simp add: store_at_ten_def)
  have r: "remainingMinutes 39599999 store_at_ten = 1"
    by (simp add: remainingMinutes_def elapsedMinutes_def store_at_ten_def)
  from overtime_floor_minutes [OF h, of 36000000 39599999] r h show ?thesis by simp
qed

text \<open>
  The session check of the worker does not floor the elapsed minutes, but at the three
  instants of the boundary it agrees with the getters: at 59 minutes the session is not
  due; at 60 minutes the overtime is 0, which is the first notification; at 61 minutes
  the overtime is 1 and the check is the one for a reminder.
\<close>

lemma session_check_boundary:
  assumes "get_active_session db = Some s" and "\<not> notification_disabled s"
    and "planned_duration s = 60"
  shows "check_session_notifications env db (start_time s + 59 * 60) w = (w, None)"
    and "check_session_notifications env db (start_time s + 60 * 60) w
      = send_unless_recent (start_time s + 60 * 60) (session_id s) ''session''
          (send_session_notification env db s 0) w"
    and "check_session_notifications env db (start_time s + 61 * 60) w
      = (if session_interval db s = 0 then
           (w, Some (ZeroDivisionError ''integer modulo by zero''))
         else if 1 mod session_interval db s = 0 then
           send_unless_recent (start_time s + 61 * 60) (session_id s) ''session''
             (send_session_notification env db s 1) w
         else (w, None))"
  using assms
  by (simp_all add: check_session_notifications_def get_active_session_def Let_def py_int_def)

section \<open>The planning check\<close>

text \<open>
  Claim C6 as stated fails. The errand started at 14:00:10, after the plan's start at
  14:00, and has ended; it was not started from the plan. The planning check at 14:00:30
  does not skip the plan: it sends the initial notification.
\<close>

theorem ended_session_does_not_skip_counterexample:
  "errand \<in> set (sessions afternoon_db)
   \<and> start_time errand \<ge> scheduled_start afternoon_plan
   \<and> end_time errand = Some 50420
   \<and> port_calls (fst (check_plan reliable_port afternoon_db 50430 afternoon_plan new_worker))
     = [\<lparr>title = ''Scheduled Work'', message = ''Time to start: Thesis'',
         urgency = ''critical''\<rparr>]"
  by code_simp

text \<open>
  Claim C6, amended. In the planning check a planning entry is skipped, with no call of
  \<^verbatim>\<open>send_notification\<close> and no change of the cache, whenever some session that is still
  active (\<^verbatim>\<open>end_time\<close> \<open>None\<close>) has \<^verbatim>\<open>start_time >= plan.scheduled_start\<close>.
\<close>

theorem active_session_after_start_skips:
  assumes "s \<in> set (sessions db)"
    and "start_time s \<ge> scheduled_start plan" and "end_time s = None"
  shows "check_plan env db now plan w = (w, None)"
proof -
  from assms have "find (\<lambda>s. start_time s \<ge> scheduled_start plan \<and> end_time s = None)
      (sessions db) \<noteq> None"
    by (auto simp: find_None_iff)
  then show ?thesis
    by (auto simp: check_plan_def split: option.splits)
qed

text \<open>The same errand, still running at 14:00:30: the plan is skipped.\<close>

theorem active_session_after_start_skips_witness:
  "errand\<lparr>end_time := None\<rparr> \<in> set (sessions errand_db)
   \<and> start_time (errand\<lparr>end_time := None\<rparr>) \<ge> scheduled_start afternoon_plan
   \<and> end_time (errand\<lparr>end_time := None\<rparr>) = None
   \<and> check_plan reliable_port errand_db 50430 afternoon_plan new_worker = (new_worker, None)"
proof -
  have h1: "errand\<lparr>end_time := None\<rparr> \<in> set (sessions errand_db)"
    by (simp add: errand_db_def)
  have h2: "start_time (errand\<lparr>end_time := None\<rparr>) \<ge> scheduled_start afternoon_plan"
    by (simp add: errand_def afternoon_plan_def)
  have h3: "end_time (errand\<lparr>end_time := None\<rparr>) = None" by simp
  from active_session_after_start_skips [OF h1 h2 h3] h1 h2 h3 show ?thesis by simp
qed

text \<open>
  Claim C7 fails on the code: a defect of the planning check. The project of the plan has
  no interval of its own and the setting \<^verbatim>\<open>notification_interval_default\<close> is 3. At
  14:03, three minutes after the plan's start, a reminder is eligible by the claim
  (3 mod 3 = 0). The planning check does not read the setting: its interval is the constant
  10, and it sends nothing. The session check on the same database does read the setting.
\<close>

theorem planning_interval_ignores_setting:
  "plan_project quiet_db afternoon_plan = Some thesis_project
   \<and> notification_interval thesis_project = None
   \<and> find (\<lambda>r. fst r = ''notification_interval_default'') (settings quiet_db)
       = Some (''notification_interval_default'', 3)
   \<and> (50580 - scheduled_start afternoon_plan) / 60 = 3
   \<and> py_int ((50580 - scheduled_start afternoon_plan) / 60) mod 3 = 0
   \<and> planning_interval quiet_db afternoon_plan = 10
   \<and> check_plan reliable_port quiet_db 50580 afternoon_plan new_worker = (new_worker, None)
   \<and> session_interval quiet_db (errand\<lparr>project_id := Some 1\<rparr>) = 3"
  by (simp add: quiet_db_def afternoon_plan_def thesis_project_def errand_def plan_project_def
      planning_interval_def project_interval_def session_interval_def session_project_def
      check_plan_def py_int_def)

text \<open>In general: no row of \<^verbatim>\<open>settings\<close> has any effect on the check of a planning
  entry, whose interval is the project's own or 10.\<close>

lemma planning_interval_settings:
  "planning_interval (db\<lparr>settings := rows\<rparr>) plan = planning_interval db plan"
  by (simp add: planning_interval_def plan_project_def)

lemma send_planning_notification_settings:
  "send_planning_notification env (db\<lparr>settings := rows\<rparr>) plan e w
   = send_planning_notification env db plan e w"
  by (simp add: send_planning_notification_def plan_project_def)

lemma check_plan_ignores_settings:
  "check_plan env (db\<lparr>settings := rows\<rparr>) now plan w = check_plan env db now plan w"
proof -
  have "send_planning_notification env (db\<lparr>settings := rows\<rparr>) plan e
      = send_planning_notification env db plan e" for e
    by (rule ext) (rule send_planning_notification_settings)
  then show ?thesis
    by (simp add: check_plan_def planning_interval_settings Let_def split: option.splits)
qed

lemma planning_interval_cases:
  "planning_interval db plan =
     (case plan_project db plan of
        None \<Rightarrow> 10
      | Some pr \<Rightarrow>
          (case notification_interval pr of
             None \<Rightarrow> 10
           | Some i \<Rightarrow> if i = 0 then 10 else i))"
  by (simp add: planning_interval_def project_interval_def split: option.splits)

section \<open>Sending and the cache\<close>

lemma port_calls_send_notification [simp]:
  "port_calls (fst (send_notification env n w)) = port_calls w @ [n]"
  by (simp add: send_notification_def Let_def py_print_def split: delivery.splits)

lemma notification_cache_send_notification [simp]:
  "notification_cache (fst (send_notification env n w)) = notification_cache w"
  by (simp add: send_notification_def Let_def py_print_def split: delivery.splits)

lemma was_notification_sent_recently_cong:
  "notification_cache w = notification_cache w' \<Longrightarrow>
   was_notification_sent_recently w now i ty = was_notification_sent_recently w' now i ty"
  by (simp add: was_notification_sent_recently_def)

lemma port_calls_mark [simp]:
  "port_calls (mark_notification_sent w now i ty) = port_calls w"
  by (simp add: mark_notification_sent_def)

lemma notification_cache_mark [simp]:
  "notification_cache (mark_notification_sent w now i ty)
   = (notification_cache w)(cache_key i ty \<mapsto> now)"
  by (simp add: mark_notification_sent_def)

subsection \<open>One cache entry for each item and item type\<close>

text \<open>The key \<^verbatim>\<open>f"{item_type}_{item_id}"\<close> determines the item type and the item id:
  the decimal print of an integer determines the integer and has no underscore in it.\<close>

lemma digits_value_snoc: "digits_value (s @ [c]) = 10 * digits_value s + (of_char c - 48)"
  by (simp add: digits_value_def)

lemma of_char_digit: "k < 10 \<Longrightarrow> of_char (char_of (48 + k :: nat)) = 48 + k"
  by (simp add: of_char_of)

lemma digits_value_str_nat: "digits_value (str_nat n) = n"
proof (induction n rule: str_nat.induct)
  case (1 n)
  show ?case
  proof (cases "n < 10")
    case True
    then show ?thesis
      by (simp add: str_nat.simps [of n] digits_value_def of_char_digit)
  next
    case False
    have "n mod 10 < 10" by simp
    then have d: "of_char (char_of (48 + n mod 10)) = 48 + n mod 10"
      by (rule of_char_digit)
    from False 1 have "digits_value (str_nat (n div 10)) = n div 10" by simp
    with False d show ?thesis
      by (simp add: str_nat.simps [of n] digits_value_snoc)
  qed
qed

lemma str_nat_inj: "str_nat n = str_nat m \<Longrightarrow> n = m"
  by (metis digits_value_str_nat)

lemma str_nat_chars: "c \<in> set (str_nat n) \<Longrightarrow> 48 \<le> (of_char c :: nat) \<and> (of_char c :: nat) \<le> 57"
proof (induction n rule: str_nat.induct)
  case (1 n)
  show ?case
  proof (cases "n < 10")
    case True
    with 1(2) have "c = char_of (48 + n)" by (simp add: str_nat.simps [of n])
    with True show ?thesis by (simp add: of_char_digit)
  next
    case False
    have d: "of_char (char_of (48 + n mod 10)) = 48 + n mod 10"
      by (rule of_char_digit) simp
    from False 1(2) have "c \<in> set (str_nat (n div 10)) \<or> c = char_of (48 + n mod 10)"
      by (auto simp: str_nat.simps [of n])
    then show ?thesis
    proof
      assume "c \<in> set (str_nat (n div 10))"
      with False 1(1) show ?thesis by simp
    next
      assume "c = char_of (48 + n mod 10)"
      with d show ?thesis by simp
    qed
  qed
qed

lemma str_nat_not_Nil: "str_nat n \<noteq> []"
  by (subst str_nat.simps) simp

lemma minus_notin_str_nat: "CHR ''-'' \<notin> set (str_nat n)"
  using str_nat_chars [of "CHR ''-''" n] by auto

lemma underscore_notin_str_nat: "CHR ''_'' \<notin> set (str_nat n)"
  using str_nat_chars [of "CHR ''_''" n] by auto

lemma str_int_inj: "str_int i = str_int j \<Longrightarrow> i = j"
proof -
  assume eq: "str_int i = str_int j"
  have hd_digit: "hd (str_nat n) \<noteq> CHR ''-''" for n
    using minus_notin_str_nat [of n] str_nat_not_Nil [of n] by (cases "str_nat n") auto
  show ?thesis
  proof (cases "i < 0")
    case True
    show ?thesis
    proof (cases "j < 0")
      case True
      with \<open>i < 0\<close> eq have "nat (- i) = nat (- j)"
        by (auto simp: str_int_def dest: str_nat_inj)
      with True \<open>i < 0\<close> show ?thesis by simp
    next
      case False
      with True eq have "CHR ''-'' # str_nat (nat (- i)) = str_nat (nat j)"
        by (simp add: str_int_def)
      then have "hd (str_nat (nat j)) = CHR ''-''" by (metis list.sel(1))
      with hd_digit show ?thesis by simp
    qed
  next
    case False
    show ?thesis
    proof (cases "j < 0")
      case True
      with False eq have "str_nat (nat i) = CHR ''-'' # str_nat (nat (- j))"
        by (simp add: str_int_def)
      then have "hd (str_nat (nat i)) = CHR ''-''" by (metis list.sel(1))
      with hd_digit show ?thesis by simp
    next
      case False
      with \<open>\<not> i < 0\<close> eq have "nat i = nat j"
        by (auto simp: str_int_def dest: str_nat_inj)
      with False \<open>\<not> i < 0\<close> show ?thesis by simp
    qed
  qed
qed

lemma underscore_notin_str_int: "CHR ''_'' \<notin> set (str_int i)"
  by (simp add: str_int_def underscore_notin_str_nat)

lemma prefix_sep_inj:
  "c \<notin> set p \<Longrightarrow> c \<notin> set q \<Longrightarrow> p @ c # a = q @ c # b \<Longrightarrow> p = q \<and> a = b"
proof (induction p arbitrary: q)
  case Nil
  then show ?case by (cases q) auto
next
  case (Cons x p)
  then show ?case by (cases q) auto
qed

lemma append_sep_inj:
  assumes "a @ c # x = b @ c # y" and "c \<notin> set x" and "c \<notin> set y"
  shows "a = b \<and> x = y"
proof -
  from assms(1) have "rev (a @ c # x) = rev (b @ c # y)" by simp
  then have "rev x @ c # rev a = rev y @ c # rev b" by simp
  moreover have "c \<notin> set (rev x)" "c \<notin> set (rev y)" using assms by simp_all
  ultimately have "rev x = rev y \<and> rev a = rev b"
    by (intro prefix_sep_inj)
  then show ?thesis by simp
qed

lemma cache_key_inj:
  "cache_key i ty = cache_key j ty' \<longleftrightarrow> i = j \<and> ty = ty'"
proof
  assume "cache_key i ty = cache_key j ty'"
  then have "ty @ CHR ''_'' # str_int i = ty' @ CHR ''_'' # str_int j"
    by (simp add: cache_key_def)
  then have "ty = ty' \<and> str_int i = str_int j"
    by (rule append_sep_inj) (rule underscore_notin_str_int)+
  then show "i = j \<and> ty = ty'" by (auto dest: str_int_inj)
qed auto

text \<open>So an attempt for one item leaves the entry of every other item, and of the same
  id under the other item type, as it was.\<close>

lemma send_unless_recent_cache_other:
  assumes "\<And>v. notification_cache (fst (send v)) = notification_cache v"
    and "(j, ty') \<noteq> (i, ty)"
  shows "notification_cache (fst (send_unless_recent now i ty send w)) (cache_key j ty')
       = notification_cache w (cache_key j ty')"
proof -
  from assms(2) have k: "cache_key i ty \<noteq> cache_key j ty'"
    by (auto simp: cache_key_inj)
  obtain v e where s: "send w = (v, e)" by (cases "send w")
  with assms(1) [of w] have "notification_cache v = notification_cache w" by simp
  with s k show ?thesis
    by (cases e) (simp_all add: send_unless_recent_def)
qed

lemma dispatch_attempt_cache_other:
  "(j, ty') \<noteq> (i, ty) \<Longrightarrow>
   notification_cache (dispatch_attempt env now i ty n w) (cache_key j ty')
     = notification_cache w (cache_key j ty')"
  unfolding dispatch_attempt_def
  by (rule send_unless_recent_cache_other) simp_all

lemma dispatch_attempts_cache_other:
  "\<forall>(t, i, ty, n) \<in> set between. (i, ty) \<noteq> (j, ty') \<Longrightarrow>
   notification_cache (dispatch_attempts env between w) (cache_key j ty')
     = notification_cache w (cache_key j ty')"
proof (induction between arbitrary: w)
  case Nil
  then show ?case by simp
next
  case (Cons a rest)
  obtain t i ty n where a: "a = (t, i, ty, n)" by (cases a)
  with Cons.prems have ne: "(j, ty') \<noteq> (i, ty)" by auto
  from Cons.prems have "\<forall>(t, i, ty, n) \<in> set rest. (i, ty) \<noteq> (j, ty')" by simp
  from Cons.IH [OF this] a dispatch_attempt_cache_other [OF ne] show ?case by simp
qed

lemma dispatch_attempt_fresh:
  "\<not> was_notification_sent_recently w now i ty \<Longrightarrow>
   dispatch_attempt env now i ty n w
     = mark_notification_sent (fst (send_notification env n w)) now i ty"
  by (simp add: dispatch_attempt_def send_unless_recent_def)

lemma dispatch_attempt_recent:
  "was_notification_sent_recently w now i ty \<Longrightarrow> dispatch_attempt env now i ty n w = w"
  by (simp add: dispatch_attempt_def send_unless_recent_def)

subsection \<open>Two attempts for the same item\<close>

text \<open>
  Claim C9. Take an item id and an item type, two dispatch attempts for them at the
  instants \<open>t1\<close> and \<open>t2\<close>, the first one not suppressed by an earlier entry of the cache,
  and between the two any attempts for other pairs of item id and item type, at any
  instants; the port may do with the calls what it likes. The first attempt calls
  \<^verbatim>\<open>send_notification\<close> once, records \<open>t1\<close> for the pair and leaves the entry of every
  other pair as it was. If \<open>t2\<close> is less than 60 seconds after \<open>t1\<close> the second attempt
  makes no call, so the pair has had one call; if it is 60 seconds or more after, the
  second attempt makes the second call and records \<open>t2\<close>. The attempts in between, whether
  they dispatch or not, change neither.
\<close>

theorem dedup_per_pair:
  assumes first: "\<not> was_notification_sent_recently w t1 item_id item_type"
    and others: "\<forall>(t, j, ty, n) \<in> set between. (j, ty) \<noteq> (item_id, item_type)"
  shows "let w1 = dispatch_attempt env t1 item_id item_type n1 w;
             w1' = dispatch_attempts env between w1;
             w2 = dispatch_attempt env t2 item_id item_type n2 w1'
         in port_calls w1 = port_calls w @ [n1]
          \<and> notification_cache w1 (cache_key item_id item_type) = Some t1
          \<and> (\<forall>j ty. (j, ty) \<noteq> (item_id, item_type) \<longrightarrow>
                notification_cache w1 (cache_key j ty) = notification_cache w (cache_key j ty))
          \<and> (t2 - t1 < 60 \<longrightarrow> port_calls w2 = port_calls w1')
          \<and> (60 \<le> t2 - t1 \<longrightarrow> port_calls w2 = port_calls w1' @ [n2]
                \<and> notification_cache w2 (cache_key item_id item_type) = Some t2)"
proof -
  let ?k = "cache_key item_id item_type"
  let ?w1 = "dispatch_attempt env t1 item_id item_type n1 w"
  let ?w1' = "dispatch_attempts env between ?w1"
  let ?w2 = "dispatch_attempt env t2 item_id item_type n2 ?w1'"
  have w1: "?w1 = mark_notification_sent (fst (send_notification env n1 w)) t1 item_id item_type"
    using first by (rule dispatch_attempt_fresh)
  have calls1: "port_calls ?w1 = port_calls w @ [n1]"
    by (simp add: w1)
  have cache1: "notification_cache ?w1 ?k = Some t1"
    by (simp add: w1)
  have frame1: "notification_cache ?w1 (cache_key j ty) = notification_cache w (cache_key j ty)"
    if "(j, ty) \<noteq> (item_id, item_type)" for j ty
    using that by (rule dispatch_attempt_cache_other)
  have "notification_cache ?w1' ?k = notification_cache ?w1 ?k"
    using others by (rule dispatch_attempts_cache_other)
  with cache1 have cache1': "notification_cache ?w1' ?k = Some t1" by simp
  then have recent: "was_notification_sent_recently ?w1' t2 item_id item_type \<longleftrightarrow> t2 - t1 < 60"
    by (simp add: was_notification_sent_recently_def)
  have within: "port_calls ?w2 = port_calls ?w1'" if "t2 - t1 < 60"
    using that recent by (simp add: dispatch_attempt_recent)
  have beyond: "port_calls ?w2 = port_calls ?w1' @ [n2] \<and> notification_cache ?w2 ?k = Some t2"
    if "60 \<le> t2 - t1"
  proof -
    from that recent have "\<not> was_notification_sent_recently ?w1' t2 item_id item_type" by simp
    then have "?w2 = mark_notification_sent (fst (send_notification env n2 ?w1')) t2
        item_id item_type"
      by (rule dispatch_attempt_fresh)
    then show ?thesis by simp
  qed
  from calls1 cache1 frame1 within beyond show ?thesis
    by (simp only: Let_def) blast
qed

text \<open>A port that refuses every connection. The session 1 is attempted at 14:00:00, the
  plan 1 in between, and the session 1 again: at 14:00:30 that makes no call; at 14:01:01,
  half a second after the dispatch for the plan, it makes its second call.\<close>

theorem dedup_per_pair_witness:
  "\<not> was_notification_sent_recently new_worker 50400 1 ''session''
   \<and> port_calls (dispatch_attempt dead_port 50430 1 ''session'' still_working
        (dispatch_attempts dead_port [(50410, 1, ''planning'', knock)]
          (dispatch_attempt dead_port 50400 1 ''session'' still_working new_worker)))
       = [still_working, knock]
   \<and> port_calls (dispatch_attempt dead_port 50461 1 ''session'' still_working
        (dispatch_attempts dead_port [(100921 / 2, 1, ''planning'', knock)]
          (dispatch_attempt dead_port 50400 1 ''session'' still_working new_worker)))
       = [still_working, knock, still_working]"
proof -
  have h: "\<not> was_notification_sent_recently new_worker 50400 1 ''session''"
    by (simp add: was_notification_sent_recently_def new_worker_def)
  have o1: "\<forall>(t, j, ty, n) \<in> set [(50410 :: real, 1 :: int, ''planning'', knock)].
      (j, ty) \<noteq> (1, ''session'')" by simp
  have o2: "\<forall>(t, j, ty, n) \<in> set [(100921 / 2 :: real, 1 :: int, ''planning'', knock)].
      (j, ty) \<noteq> (1, ''session'')" by simp
  have p: "port_calls new_worker = []" by (simp add: new_worker_def)
  have b1: "port_calls (dispatch_attempts dead_port [(50410, 1, ''planning'', knock)]
          (dispatch_attempt dead_port 50400 1 ''session'' still_working new_worker))
      = [still_working, knock]" by code_simp
  have b2: "port_calls (dispatch_attempts dead_port [(100921 / 2, 1, ''planning'', knock)]
          (dispatch_attempt dead_port 50400 1 ''session'' still_working new_worker))
      = [still_working, knock]" by code_simp
  from dedup_per_pair [OF h o1, of dead_port still_working 50430 still_working] b1
  have a: "port_calls (dispatch_attempt dead_port 50430 1 ''session'' still_working
        (dispatch_attempts dead_port [(50410, 1, ''planning'', knock)]
          (dispatch_attempt dead_port 50400 1 ''session'' still_working new_worker)))
       = [still_working, knock]"
    by (simp add: Let_def)
  from dedup_per_pair [OF h o2, of dead_port still_working 50461 still_working] b2
  have b: "port_calls (dispatch_attempt dead_port 50461 1 ''session'' still_working
        (dispatch_attempts dead_port [(100921 / 2, 1, ''planning'', knock)]
          (dispatch_attempt dead_port 50400 1 ''session'' still_working new_worker)))
       = [still_working, knock, still_working]"
    by (simp add: Let_def)
  from h a b show ?thesis by (simp only: simp_thms)
qed

subsection \<open>The worker's checks are such attempts\<close>

text \<open>The guard around the worker's two senders is a dispatch attempt; the planning check
  leaves the entries of the sessions alone, and the session check those of the plans.\<close>

lemma sender_attempt:
  assumes "\<And>w. send w = (fst (send_notification env n w), None)"
  shows "send_unless_recent now i ty send w = (dispatch_attempt env now i ty n w, None)"
proof -
  from assms have "send = (\<lambda>w. (fst (send_notification env n w), None))" by (intro ext)
  then show ?thesis
    by (simp add: dispatch_attempt_def send_unless_recent_def)
qed

lemma send_session_notification_attempt:
  "\<exists>n. \<forall>w. send_unless_recent now i ty (send_session_notification env db s ot) w
        = (dispatch_attempt env now i ty n w, None)"
proof -
  have "\<exists>n. \<forall>w. send_session_notification env db s ot w
      = (fst (send_notification env n w), None)"
    unfolding send_session_notification_def Let_def by blast
  then obtain n where "\<And>w. send_session_notification env db s ot w
      = (fst (send_notification env n w), None)" by blast
  then have "\<forall>w. send_unless_recent now i ty (send_session_notification env db s ot) w
        = (dispatch_attempt env now i ty n w, None)"
    by (intro allI sender_attempt)
  then show ?thesis ..
qed

lemma send_planning_notification_attempt:
  assumes "plan_project db plan = Some pr"
  shows "\<exists>n. \<forall>w. send_unless_recent now i ty (send_planning_notification env db plan e) w
        = (dispatch_attempt env now i ty n w, None)"
proof -
  have "\<exists>n. \<forall>w. send_planning_notification env db plan e w
      = (fst (send_notification env n w), None)"
    using assms unfolding send_planning_notification_def Let_def by (simp, blast)
  then obtain n where "\<And>w. send_planning_notification env db plan e w
      = (fst (send_notification env n w), None)" by blast
  then have "\<forall>w. send_unless_recent now i ty (send_planning_notification env db plan e) w
        = (dispatch_attempt env now i ty n w, None)"
    by (intro allI sender_attempt)
  then show ?thesis ..
qed

lemma notification_cache_send_planning:
  "notification_cache (fst (send_planning_notification env db plan e w)) = notification_cache w"
  by (simp add: send_planning_notification_def Let_def split: option.splits)

lemma notification_cache_send_session:
  "notification_cache (fst (send_session_notification env db s e w)) = notification_cache w"
  by (simp add: send_session_notification_def Let_def)

lemma check_plan_cache_other:
  assumes "(j, ty) \<noteq> (plan_id plan, ''planning'')"
  shows "notification_cache (fst (check_plan env db now plan w)) (cache_key j ty)
       = notification_cache w (cache_key j ty)"
  using send_unless_recent_cache_other [of "send_planning_notification env db plan e" j ty
      "plan_id plan" "''planning''" now w for e, OF notification_cache_send_planning assms]
  by (simp add: check_plan_def Let_def split: option.splits)

lemma check_plans_cache_session:
  "notification_cache (fst (check_plans env db now plans w)) (cache_key j ''session'')
     = notification_cache w (cache_key j ''session'')"
proof (induction plans arbitrary: w)
  case Nil
  then show ?case by simp
next
  case (Cons plan rest)
  obtain v e where r: "check_plan env db now plan w = (v, e)"
    by (cases "check_plan env db now plan w")
  have "notification_cache (fst (check_plan env db now plan w)) (cache_key j ''session'')
      = notification_cache w (cache_key j ''session'')"
    by (rule check_plan_cache_other) simp
  with r have v: "notification_cache v (cache_key j ''session'')
      = notification_cache w (cache_key j ''session'')" by simp
  show ?case
  proof (cases e)
    case None
    with r v Cons.IH [of v] show ?thesis by simp
  next
    case (Some err)
    with r v show ?thesis by simp
  qed
qed

lemma check_session_cache_planning:
  "notification_cache (fst (check_session_notifications env db now w)) (cache_key j ''planning'')
     = notification_cache w (cache_key j ''planning'')"
proof -
  have "notification_cache (fst (send_unless_recent now i ''session''
          (send_session_notification env db s e) w)) (cache_key j ''planning'')
      = notification_cache w (cache_key j ''planning'')" for i s e
    by (rule send_unless_recent_cache_other) (simp_all add: notification_cache_send_session)
  then show ?thesis
    by (simp add: check_session_notifications_def Let_def split: option.splits)
qed

section \<open>The session check\<close>

lemma find_active_update_row:
  assumes "find (\<lambda>x. session_id x = session_id s') xs = Some s"
    and "find (\<lambda>x. end_time x = None) xs = Some s"
    and "end_time s' = None"
  shows "find (\<lambda>x. end_time x = None) (update_row s' xs) = Some s'"
proof -
  from assms(1) have same: "session_id s = session_id s'" by (rule find_session_id)
  from assms show ?thesis
  proof (induction xs)
    case Nil
    then show ?case by simp
  next
    case (Cons x xs)
    show ?case
    proof (cases "session_id x = session_id s'")
      case True
      with Cons.prems(3) show ?thesis by simp
    next
      case False
      with same have "x \<noteq> s" by auto
      with Cons.prems(2) have "end_time x \<noteq> None" by (auto split: if_splits)
      with False Cons show ?thesis by auto
    qed
  qed
qed

lemma get_active_session_commit:
  assumes "get_by_id db (session_id s') = Some s" and "get_active_session db = Some s"
    and "end_time s' = None"
  shows "get_active_session (commit db s') = Some s'"
  using assms find_active_update_row [of s' "sessions db" s]
  by (simp add: get_by_id_def get_active_session_def commit_def)

lemma find_Some_holds: "find P xs = Some x \<Longrightarrow> P x"
  by (induction xs) (auto split: if_splits)

lemma session_interval_commit:
  "project_id s' = project_id s \<Longrightarrow> session_interval (commit db s'') s' = session_interval db s"
  by (simp add: session_interval_def session_project_def commit_def split: option.splits)

lemma port_calls_send_session [simp]:
  "port_calls (fst (send_session_notification env db s overtime w)) \<noteq> port_calls w"
  by (simp add: send_session_notification_def Let_def)

lemma snd_send_session [simp]:
  "snd (send_session_notification env db s overtime w) = None"
  by (simp add: send_session_notification_def Let_def)

lemma port_calls_send_unless_recent_session:
  "port_calls (fst (send_unless_recent now i ty (send_session_notification env db s overtime) w))
     \<noteq> port_calls w
   \<longleftrightarrow> \<not> was_notification_sent_recently w now i ty"
proof (cases "send_session_notification env db s overtime w")
  case (Pair w' e)
  with snd_send_session [of env db s overtime w] have e: "e = None" by simp
  from Pair port_calls_send_session [of env db s overtime w]
  have "port_calls w' \<noteq> port_calls w" by simp
  with Pair e show ?thesis by (simp add: send_unless_recent_def)
qed

text \<open>
  Claim C8. Let \<open>s\<close> be the active session, with its notifications disabled. At any
  instant, however far into overtime, the session check calls \<^verbatim>\<open>send_notification\<close>
  not at all and leaves the worker as it is. Toggling puts the flag back to false, and the
  row stays the active session; the next session check, at the instant \<open>later\<close>, makes a
  call exactly when the session is due then: the planned duration is over, and either
  less than a minute ago or a whole number of intervals ago (in whole minutes), and no
  notification for the session was sent in the last 60 seconds.
\<close>

theorem disabled_session_is_silent:
  assumes act: "get_active_session db = Some s"
    and row: "get_by_id db (session_id s) = Some s"
    and off: "notification_disabled s"
  shows "check_session_notifications env db now w = (w, None)
    \<and> toggle_notifications db (session_id s)
        = Inr (commit db (s\<lparr>notification_disabled := False\<rparr>),
               s\<lparr>notification_disabled := False\<rparr>)
    \<and> get_active_session (commit db (s\<lparr>notification_disabled := False\<rparr>))
        = Some (s\<lparr>notification_disabled := False\<rparr>)
    \<and> (port_calls (fst (check_session_notifications env
          (commit db (s\<lparr>notification_disabled := False\<rparr>)) later w)) \<noteq> port_calls w
        \<longleftrightarrow>
        (let overtime = (later - start_time s) / 60 - real_of_int (planned_duration s) in
           0 \<le> overtime
           \<and> (overtime < 1
               \<or> session_interval db s \<noteq> 0 \<and> py_int overtime mod session_interval db s = 0)
           \<and> \<not> was_notification_sent_recently w later (session_id s) ''session''))"
proof -
  let ?s' = "s\<lparr>notification_disabled := False\<rparr>"
  let ?db' = "commit db ?s'"
  from act have active: "end_time s = None"
    unfolding get_active_session_def by (rule find_Some_holds)
  have silent: "check_session_notifications env db now w = (w, None)"
    using act off by (simp add: check_session_notifications_def get_active_session_def)
  have toggle: "toggle_notifications db (session_id s) = Inr (?db', ?s')"
    using row off by (simp add: toggle_notifications_def Let_def)
  have act': "get_active_session ?db' = Some ?s'"
    using row act active by (intro get_active_session_commit [where s = s]) simp_all
  have interval: "session_interval ?db' ?s' = session_interval db s"
    by (rule session_interval_commit) simp
  have due: "port_calls (fst (check_session_notifications env ?db' later w)) \<noteq> port_calls w
        \<longleftrightarrow>
        (let overtime = (later - start_time s) / 60 - real_of_int (planned_duration s) in
           0 \<le> overtime
           \<and> (overtime < 1
               \<or> session_interval db s \<noteq> 0 \<and> py_int overtime mod session_interval db s = 0)
           \<and> \<not> was_notification_sent_recently w later (session_id s) ''session'')"
    using act' [unfolded get_active_session_def]
    by (auto simp: check_session_notifications_def Let_def interval
        port_calls_send_unless_recent_session)
  from silent toggle act' due show ?thesis by blast
qed

text \<open>The muted session of 09:00, planned for thirty minutes: nothing at 09:40; after the
  toggle, the reminder of the tenth minute of overtime at 09:40, and nothing at 09:43:20.\<close>

theorem disabled_session_is_silent_witness:
  "get_active_session muted_db = Some muted
   \<and> get_by_id muted_db (session_id muted) = Some muted
   \<and> notification_disabled muted
   \<and> check_session_notifications reliable_port muted_db 34800 new_worker = (new_worker, None)
   \<and> toggle_notifications muted_db 1 = Inr (running_db, first_session)
   \<and> get_active_session running_db = Some first_session
   \<and> port_calls (fst (check_session_notifications reliable_port running_db 34800 new_worker))
       = [still_working]
   \<and> port_calls (fst (check_session_notifications reliable_port running_db 35000 new_worker))
       = []"
proof -
  have h1: "get_active_session muted_db = Some muted" by code_simp
  have h2: "get_by_id muted_db (session_id muted) = Some muted" by code_simp
  have h3: "notification_disabled muted" by code_simp
  have c: "commit muted_db first_session = running_db" by code_simp
  have m: "muted\<lparr>notification_disabled := False\<rparr> = first_session" by code_simp
  have i: "session_id muted = 1" by code_simp
  have e1: "port_calls (fst (check_session_notifications reliable_port running_db 34800 new_worker))
       = [still_working]" by code_simp
  have e2: "port_calls (fst (check_session_notifications reliable_port running_db 35000 new_worker))
       = []" by code_simp
  from disabled_session_is_silent [OF h1 h2 h3, of reliable_port 34800 new_worker 34800]
  have "check_session_notifications reliable_port muted_db 34800 new_worker = (new_worker, None)
    \<and> toggle_notifications muted_db 1 = Inr (running_db, first_session)
    \<and> get_active_session running_db = Some first_session"
    by (simp only: m i c)
  with h1 h2 h3 e1 e2 show ?thesis by (simp only: simp_thms)
qed

section \<open>Failures of the port and of a tick\<close>

lemma same_dispatch_refl [simp]: "same_dispatch w w"
  by (simp add: same_dispatch_def)

lemma same_outcome_skip [simp]: "same_dispatch w w' \<Longrightarrow> same_outcome (w, e) (w', e)"
  by (simp add: same_outcome_def)

lemma same_dispatch_print [simp]:
  "same_dispatch (py_print l w) w' = same_dispatch w w'"
  "same_dispatch w (py_print l w') = same_dispatch w w'"
  by (simp_all add: same_dispatch_def py_print_def)

lemma same_dispatch_send_notification:
  "same_dispatch w w' \<Longrightarrow>
   same_dispatch (fst (send_notification env n w)) (fst (send_notification env' n w'))"
  by (simp add: same_dispatch_def)

lemma same_dispatch_mark:
  "same_dispatch w w' \<Longrightarrow>
   same_dispatch (mark_notification_sent w now i ty) (mark_notification_sent w' now i ty)"
  by (simp add: same_dispatch_def)

lemma same_dispatch_recent:
  "same_dispatch w w' \<Longrightarrow>
   was_notification_sent_recently w now i ty = was_notification_sent_recently w' now i ty"
  by (simp add: same_dispatch_def was_notification_sent_recently_def)

lemma same_outcome_send_planning:
  "same_dispatch w w' \<Longrightarrow>
   same_outcome (send_planning_notification env db plan e w)
                (send_planning_notification env' db plan e w')"
  by (simp add: send_planning_notification_def Let_def same_outcome_def
      same_dispatch_send_notification split: option.splits)

lemma same_outcome_send_session:
  "same_dispatch w w' \<Longrightarrow>
   same_outcome (send_session_notification env db s e w)
                (send_session_notification env' db s e w')"
  by (simp add: send_session_notification_def Let_def same_outcome_def
      same_dispatch_send_notification)

lemma same_outcome_send_unless_recent:
  assumes "same_dispatch w w'" and "same_outcome (send w) (send' w')"
  shows "same_outcome (send_unless_recent now i ty send w) (send_unless_recent now i ty send' w')"
proof (cases "was_notification_sent_recently w now i ty")
  case True
  with assms(1) same_dispatch_recent [OF assms(1), of now i ty] show ?thesis
    by (simp add: send_unless_recent_def)
next
  case False
  with same_dispatch_recent [OF assms(1), of now i ty]
  have n: "\<not> was_notification_sent_recently w' now i ty" by simp
  obtain v e where s: "send w = (v, e)" by (cases "send w")
  obtain v' e' where s': "send' w' = (v', e')" by (cases "send' w'")
  from assms(2) s s' have v: "same_dispatch v v'" and e: "e' = e"
    by (simp_all add: same_outcome_def)
  show ?thesis
  proof (cases e)
    case None
    with False n s s' e v show ?thesis
      by (simp add: send_unless_recent_def same_outcome_def same_dispatch_mark)
  next
    case (Some err)
    with False n s s' e v show ?thesis
      by (simp add: send_unless_recent_def same_outcome_def)
  qed
qed

lemma same_outcome_check_plan:
  assumes "same_dispatch w w'"
  shows "same_outcome (check_plan env db now plan w) (check_plan env' db now plan w')"
  using assms
  by (auto simp: check_plan_def Let_def split: option.splits
      intro!: same_outcome_send_unless_recent same_outcome_send_planning)

lemma same_outcome_check_plans:
  "same_dispatch w w' \<Longrightarrow>
   same_outcome (check_plans env db now plans w) (check_plans env' db now plans w')"
proof (induction plans arbitrary: w w')
  case Nil
  then show ?case by simp
next
  case (Cons plan rest)
  obtain v e where r: "check_plan env db now plan w = (v, e)"
    by (cases "check_plan env db now plan w")
  obtain v' e' where r': "check_plan env' db now plan w' = (v', e')"
    by (cases "check_plan env' db now plan w'")
  from same_outcome_check_plan [OF Cons.prems, of env db now plan env'] r r'
  have v: "same_dispatch v v'" and e: "e' = e" by (simp_all add: same_outcome_def)
  show ?case
  proof (cases e)
    case None
    with r r' e Cons.IH [OF v] show ?thesis by simp
  next
    case (Some err)
    with r r' e v show ?thesis by simp
  qed
qed

lemma same_outcome_check_session:
  assumes "same_dispatch w w'"
  shows "same_outcome (check_session_notifications env db now w)
                      (check_session_notifications env' db now w')"
  using assms
  by (auto simp: check_session_notifications_def Let_def split: option.splits
      intro!: same_outcome_send_unless_recent same_outcome_send_session)

lemma same_outcome_check_notifications:
  assumes "same_dispatch w w'"
  shows "same_outcome (check_notifications env db now w) (check_notifications env' db now w')"
proof -
  obtain v e where r: "check_planning_notifications env db now w = (v, e)"
    by (cases "check_planning_notifications env db now w")
  obtain v' e' where r': "check_planning_notifications env' db now w' = (v', e')"
    by (cases "check_planning_notifications env' db now w'")
  from same_outcome_check_plans [OF assms, of env db now "planning_list db now" env'] r r'
  have v: "same_dispatch v v'" and e: "e' = e"
    by (simp_all add: same_outcome_def check_planning_notifications_def)
  show ?thesis
  proof (cases e)
    case None
    with r r' e same_outcome_check_session [OF v, of env db now env'] show ?thesis
      by (simp add: check_notifications_def)
  next
    case (Some err)
    with r r' e v show ?thesis by (simp add: check_notifications_def)
  qed
qed

lemma same_dispatch_tick:
  assumes "same_dispatch w w'"
  shows "same_dispatch (tick env t w) (tick env' t w')"
proof -
  obtain v e where r: "check_notifications env (snd t) (fst t) w = (v, e)"
    by (cases "check_notifications env (snd t) (fst t) w")
  obtain v' e' where r': "check_notifications env' (snd t) (fst t) w' = (v', e')"
    by (cases "check_notifications env' (snd t) (fst t) w'")
  from same_outcome_check_notifications [OF assms, of env "snd t" "fst t" env'] r r'
  have "same_dispatch v v'" and "e' = e" by (simp_all add: same_outcome_def)
  with r r' show ?thesis by (cases e) (simp_all add: tick_def)
qed

lemma same_dispatch_polling_loop:
  "same_dispatch w w' \<Longrightarrow>
   same_dispatch (polling_loop env rounds w) (polling_loop env' rounds w')"
proof (induction rounds arbitrary: w w')
  case Nil
  then show ?case by simp
next
  case (Cons t ts)
  from Cons.prems have "same_dispatch (tick env t w) (tick env' t w')"
    by (rule same_dispatch_tick)
  then show ?case by (simp add: Cons.IH)
qed

lemma polling_loop_snoc:
  "polling_loop env (rounds @ [t]) w = tick env t (polling_loop env rounds w)"
  by (induction rounds arbitrary: w) simp_all

text \<open>
  Claim C10. Whatever the port does with each call (\<open>env\<close>), one tick makes the same
  calls of \<^verbatim>\<open>send_notification\<close>, in the same order, leaves the same cache and raises
  the same exception, or none, as with a port that delivers every time: a failed delivery
  neither ends the evaluation of the entries after it nor raises. The same holds for the
  polling loop over any rounds. A round returns a worker state and never an exception
  (that is the type of \<open>tick\<close>), and after any rounds, whatever their outcome, the next
  round is run.
\<close>

theorem port_failure_contained:
  "port_calls (fst (check_notifications env db now w))
     = port_calls (fst (check_notifications (\<lambda>k. Delivered) db now w))
   \<and> notification_cache (fst (check_notifications env db now w))
     = notification_cache (fst (check_notifications (\<lambda>k. Delivered) db now w))
   \<and> snd (check_notifications env db now w)
     = snd (check_notifications (\<lambda>k. Delivered) db now w)
   \<and> port_calls (start env rounds w) = port_calls (start (\<lambda>k. Delivered) rounds w)
   \<and> notification_cache (start env rounds w)
     = notification_cache (start (\<lambda>k. Delivered) rounds w)
   \<and> start env (rounds @ [t]) w = tick env t (start env rounds w)"
proof -
  have "same_outcome (check_notifications env db now w)
          (check_notifications (\<lambda>k. Delivered) db now w)"
    by (rule same_outcome_check_notifications) simp
  moreover have "same_dispatch (start env rounds w) (start (\<lambda>k. Delivered) rounds w)"
    unfolding start_def by (rule same_dispatch_polling_loop) simp
  moreover have "start env (rounds @ [t]) w = tick env t (start env rounds w)"
    by (simp add: start_def polling_loop_snoc)
  ultimately show ?thesis
    by (simp add: same_outcome_def same_dispatch_def)
qed

text \<open>The rounds of the afternoon with a port that refuses every connection: in the first
  round the reminder for the first plan fails and the second plan is still notified; the
  second round raises \<^verbatim>\<open>ZeroDivisionError\<close>, which is printed; the third round runs
  and sends its two reminders.\<close>

theorem port_failure_contained_witness:
  "port_calls (start dead_port afternoon_rounds new_worker)
     = port_calls (start (\<lambda>k. Delivered) afternoon_rounds new_worker)
   \<and> map title (port_calls (start dead_port afternoon_rounds new_worker))
     = [''Planning Reminder'', ''Scheduled Work'', ''Planning Reminder'', ''Planning Reminder'']
   \<and> stdout (start (\<lambda>k. Delivered) afternoon_rounds new_worker)
     = [''Notification worker started'',
        ''Error in notification worker: integer modulo by zero'']
   \<and> length (stdout (start dead_port afternoon_rounds new_worker)) = 6"
proof -
  have a: "map title (port_calls (start dead_port afternoon_rounds new_worker))
     = [''Planning Reminder'', ''Scheduled Work'', ''Planning Reminder'', ''Planning Reminder'']"
    by code_simp
  have b: "stdout (start (\<lambda>k. Delivered) afternoon_rounds new_worker)
     = [''Notification worker started'',
        ''Error in notification worker: integer modulo by zero'']"
    by code_simp
  have c: "length (stdout (start dead_port afternoon_rounds new_worker)) = 6"
    by code_simp
  from port_failure_contained [of dead_port two_plans_db 50530 new_worker afternoon_rounds
      "(50650, two_plans_db)"] a b c
  show ?thesis by (simp only: simp_thms)
qed

end
